theory Spec2Isabelle
  imports Complex_Main
begin

section \<open>Python values, exceptions and the objects of the training script\<close>

text \<open>
  The script \<^verbatim>\<open>train_para.py\<close> has two functions, \<^verbatim>\<open>main\<close> and \<^verbatim>\<open>evaluate\<close>.
  Both are embedded as state-passing functions. An exception is a value of \<open>exn\<close>; a
  call that may raise returns \<open>exn + 'a\<close> with \<open>Inl\<close> for the exception. The script
  has no \<^verbatim>\<open>try\<close> statement, so every \<open>Inl\<close> is passed on unchanged.
  Floating-point numbers (losses, metrics) are taken as reals; no theorem below
  depends on their arithmetic.
\<close>

datatype exn =
    NameError string
  | ZeroDivisionError
  | KeyError string
  | ValueError string
  | TypeError string
  | IndexError string
  | FrameworkError string

datatype device = CPU | CUDA nat

text \<open>A tensor lives on a device and has a shape and elements (index tensors only).\<close>

record tensor =
  dev :: device
  shape :: "nat list"
  elems :: "int list"

definition to :: "device \<Rightarrow> tensor \<Rightarrow> tensor" where
  "to d t = t\<lparr>dev := d\<rparr>"

text \<open>\<^verbatim>\<open>t.size(0)\<close>: the first dimension; a 0-d tensor has none.\<close>

definition size0 :: "tensor \<Rightarrow> exn + nat" where
  "size0 t = (case shape t of
                [] \<Rightarrow> Inl (IndexError ''dimension specified as 0 but tensor has no dimensions'')
              | n # _ \<Rightarrow> Inr n)"

text \<open>
  A network object: its parameters, the training-mode flag toggled by
  \<^verbatim>\<open>.train()\<close> and \<^verbatim>\<open>.eval()\<close>, and the device it was moved to.
\<close>

record 'p module =
  params :: 'p
  training :: bool
  placed :: device

datatype logmsg =
    LArgs
  | LSeed int
  | LLoadingEmbeddings
  | LBuildingBiDAF
  | LNoBiDAF
  | LLoadingCheckpoint string
  | LBuildingDataset
  | LTraining
  | LStartingEpoch int
  | LEvaluating int
  | LDev "(string \<times> real) list"
  | LVisualizing

text \<open>
  The observable actions, in the order the script performs them. A forward pass
  records the training flag of the network and the gradient mode at the call.
  \<open>SetSeed\<close> stands for the four seeding calls of lines 41 to 44, all made.
\<close>

datatype event =
    Log logmsg
  | SetSeed int
  | LoadEmbeddings string
  | BuildBiDAF int
  | LoadCheckpoint string
  | BuildParaphraser int
  | BuildDataset string
  | BuildLoader bool int
  | LoadIdx2Word string
  | ParaForward tensor tensor tensor
  | Print string
  | Progress nat
  | OptZeroGrad
  | Forward bool bool tensor tensor
  | Loss real
  | Backward
  | ClipGrad
  | OptStep
  | SchedStep int
  | EmaUpdate int
  | EmaAssign
  | EmaResume
  | AddScalar string int
  | SaveCheckpoint int
  | Visualize int

text \<open>The process-wide state: the gradient mode of the framework and the actions so far.\<close>

record world =
  grad_enabled :: bool
  trace :: "event list"

definition emit :: "event \<Rightarrow> 'z world_scheme \<Rightarrow> 'z world_scheme" where
  "emit ev w = w\<lparr>trace := trace w @ [ev]\<rparr>"

text \<open>
  \<^verbatim>\<open>with torch.no_grad():\<close> and \<^verbatim>\<open>with torch.enable_grad():\<close> set the gradient mode
  for the body and put the previous mode back when the body is left, however it is left.
\<close>

definition with_grad ::
  "bool \<Rightarrow> ('z world_scheme \<Rightarrow> 'r \<times> 'z world_scheme) \<Rightarrow> 'z world_scheme
     \<Rightarrow> 'r \<times> 'z world_scheme" where
  "with_grad b body w =
     (let prev = grad_enabled w;
          (r, w') = body (w\<lparr>grad_enabled := b\<rparr>)
      in (r, w'\<lparr>grad_enabled := prev\<rparr>))"

text \<open>Tuple unpacking in a \<^verbatim>\<open>for\<close> header raises when the tuple has another length.\<close>

definition unpack_error :: "nat \<Rightarrow> nat \<Rightarrow> exn" where
  "unpack_error want got =
     ValueError (if got < want then ''not enough values to unpack''
                 else ''too many values to unpack'')"

definition unpack7 :: "'a list \<Rightarrow> exn + ('a \<times> 'a \<times> 'a \<times> 'a \<times> 'a \<times> 'a \<times> 'a)" where
  "unpack7 xs =
     (if length xs = 7
      then Inr (xs ! 0, xs ! 1, xs ! 2, xs ! 3, xs ! 4, xs ! 5, xs ! 6)
      else Inl (unpack_error 7 (length xs)))"

text \<open>\<^verbatim>\<open>d[k]\<close> on a dictionary.\<close>

definition getitem :: "(string \<rightharpoonup> 'v) \<Rightarrow> string \<Rightarrow> exn + 'v" where
  "getitem d k = (case d k of None \<Rightarrow> Inl (KeyError k) | Some v \<Rightarrow> Inr v)"

text \<open>
  \<^verbatim>\<open>OrderedDict(pairs)\<close>: the pairs are inserted from left to right; a key that is
  already present keeps its place and takes the new value.
\<close>

fun od_set :: "'k \<Rightarrow> 'v \<Rightarrow> ('k \<times> 'v) list \<Rightarrow> ('k \<times> 'v) list" where
  "od_set k v [] = [(k, v)]"
| "od_set k v ((k', v') # r) = (if k = k' then (k, v) # r else (k', v') # od_set k v r)"

definition OrderedDict :: "('k \<times> 'v) list \<Rightarrow> ('k \<times> 'v) list" where
  "OrderedDict kvs = foldl (\<lambda>d (k, v). od_set k v d) [] kvs"

section \<open>The evaluation routine\<close>

text \<open>
  The calls \<^verbatim>\<open>evaluate\<close> makes into \<^verbatim>\<open>util\<close>, \<^verbatim>\<open>torch\<close> and the network are
  parameters: \<open>open_json\<close> is \<^verbatim>\<open>open(eval_file)\<close> followed by \<^verbatim>\<open>json_load\<close>,
  \<open>meter_avg\<close> is the \<^verbatim>\<open>avg\<close> of a \<^verbatim>\<open>util.AverageMeter\<close> after the given updates.
\<close>

record ('p, 'g) eval_ops =
  open_json :: "string \<Rightarrow> exn + 'g"
  forward :: "'p module \<Rightarrow> tensor \<Rightarrow> tensor \<Rightarrow> exn + tensor \<times> tensor"
  nll_loss :: "tensor \<Rightarrow> tensor \<Rightarrow> exn + real"
  texp :: "tensor \<Rightarrow> tensor"
  discretize :: "tensor \<Rightarrow> tensor \<Rightarrow> int \<Rightarrow> bool \<Rightarrow> exn + tensor \<times> tensor"
  convert_tokens :: "'g \<Rightarrow> int list \<Rightarrow> int list \<Rightarrow> int list \<Rightarrow> bool
                       \<Rightarrow> exn + (string \<rightharpoonup> string) \<times> (string \<rightharpoonup> string)"
  eval_dicts :: "'g \<Rightarrow> (string \<rightharpoonup> string) \<Rightarrow> bool \<Rightarrow> exn + (string \<rightharpoonup> real)"
  meter_avg :: "(real \<times> nat) list \<Rightarrow> real"

text \<open>One pass of the body of the \<^verbatim>\<open>for\<close> loop of \<^verbatim>\<open>evaluate\<close> (lines 213 to 238).\<close>

definition eval_batch ::
  "('p, 'g) eval_ops \<Rightarrow> 'p module \<Rightarrow> device \<Rightarrow> 'g \<Rightarrow> int \<Rightarrow> bool \<Rightarrow> tensor list
     \<Rightarrow> (real \<times> nat) list \<times> (string \<rightharpoonup> string) \<Rightarrow> 'z world_scheme
     \<Rightarrow> (exn + (real \<times> nat) list \<times> (string \<rightharpoonup> string)) \<times> 'z world_scheme" where
  "eval_batch ops model device gold_dict max_len use_squad_v2 b acc w =
     (case unpack7 b of
        Inl e \<Rightarrow> (Inl e, w)
      | Inr (cw_idxs0, cc_idxs, qw_idxs0, qc_idxs, y1, y2, ids) \<Rightarrow>
         (let cw_idxs = to device cw_idxs0;
              qw_idxs = to device qw_idxs0
          in (case size0 cw_idxs of
                Inl e \<Rightarrow> (Inl e, w)
              | Inr batch_size \<Rightarrow>
                 (let w1 = emit (Forward (training model) (grad_enabled w) cw_idxs qw_idxs) w
                  in (case forward ops model cw_idxs qw_idxs of
                        Inl e \<Rightarrow> (Inl e, w1)
                      | Inr (log_p1, log_p2) \<Rightarrow>
                         (case nll_loss ops log_p1 (to device y1) of
                            Inl e \<Rightarrow> (Inl e, w1)
                          | Inr l1 \<Rightarrow>
                             (case nll_loss ops log_p2 (to device y2) of
                                Inl e \<Rightarrow> (Inl e, w1)
                              | Inr l2 \<Rightarrow>
                                 (let nll_meter = fst acc @ [(l1 + l2, batch_size)]
                                  in (case discretize ops (texp ops log_p1) (texp ops log_p2)
                                             max_len use_squad_v2 of
                                        Inl e \<Rightarrow> (Inl e, w1)
                                      | Inr (starts, ends) \<Rightarrow>
                                         (let w2 = emit (Progress batch_size) w1
                                          in (case convert_tokens ops gold_dict (elems ids)
                                                     (elems starts) (elems ends) use_squad_v2 of
                                                Inl e \<Rightarrow> (Inl e, w2)
                                              | Inr (preds, _) \<Rightarrow>
                                                 (Inr (nll_meter, snd acc ++ preds),
                                                  w2))))))))))))"

fun eval_batches ::
  "('p, 'g) eval_ops \<Rightarrow> 'p module \<Rightarrow> device \<Rightarrow> 'g \<Rightarrow> int \<Rightarrow> bool \<Rightarrow> tensor list list
     \<Rightarrow> (real \<times> nat) list \<times> (string \<rightharpoonup> string) \<Rightarrow> 'z world_scheme
     \<Rightarrow> (exn + (real \<times> nat) list \<times> (string \<rightharpoonup> string)) \<times> 'z world_scheme" where
  "eval_batches ops model device gold_dict max_len use_squad_v2 [] acc w = (Inr acc, w)"
| "eval_batches ops model device gold_dict max_len use_squad_v2 (b # bs) acc w =
     (case eval_batch ops model device gold_dict max_len use_squad_v2 b acc w of
        (Inl e, w') \<Rightarrow> (Inl e, w')
      | (Inr acc', w') \<Rightarrow>
          eval_batches ops model device gold_dict max_len use_squad_v2 bs acc' w')"

text \<open>
  \<^verbatim>\<open>evaluate(model, data_loader, device, eval_file, max_len, use_squad_v2)\<close>.
  The result is the returned pair or the exception, the network object as the call
  leaves it, and the world. \<^verbatim>\<open>model.train()\<close> (line 240) stands after the
  \<^verbatim>\<open>with\<close> block and not in a \<^verbatim>\<open>finally\<close> clause.
\<close>

definition evaluate ::
  "('p, 'g) eval_ops \<Rightarrow> 'p module \<Rightarrow> tensor list list \<Rightarrow> device \<Rightarrow> string \<Rightarrow> int \<Rightarrow> bool
     \<Rightarrow> 'z world_scheme
     \<Rightarrow> (exn + (string \<times> real) list \<times> (string \<rightharpoonup> string)) \<times> 'p module
          \<times> 'z world_scheme" where
  "evaluate ops model0 data_loader device eval_file max_len use_squad_v2 w =
     (let model = model0\<lparr>training := False\<rparr>
      in (case open_json ops eval_file of
            Inl e \<Rightarrow> (Inl e, model, w)
          | Inr gold_dict \<Rightarrow>
             (case with_grad False
                     (eval_batches ops model device gold_dict max_len use_squad_v2
                        data_loader ([], Map.empty)) w of
                (Inl e, w') \<Rightarrow> (Inl e, model, w')
              | (Inr (nll_meter, pred_dict), w') \<Rightarrow>
                 (let model' = model\<lparr>training := True\<rparr>
                  in (case eval_dicts ops gold_dict pred_dict use_squad_v2 of
                        Inl e \<Rightarrow> (Inl e, model', w')
                      | Inr results \<Rightarrow>
                         (case getitem results ''F1'' of
                            Inl e \<Rightarrow> (Inl e, model', w')
                          | Inr f1 \<Rightarrow>
                             (case getitem results ''EM'' of
                                Inl e \<Rightarrow> (Inl e, model', w')
                              | Inr em \<Rightarrow>
                                 (let results_list =
                                        [(''NLL'', meter_avg ops nll_meter),
                                         (''F1'', f1), (''EM'', em)]
                                  in (if use_squad_v2
                                      then (case getitem results ''AvNA'' of
                                              Inl e \<Rightarrow> (Inl e, model', w')
                                            | Inr avna \<Rightarrow>
                                               (Inr (OrderedDict
                                                       (results_list @ [(''AvNA'', avna)]),
                                                     pred_dict), model', w'))
                                      else (Inr (OrderedDict results_list, pred_dict),
                                            model', w'))))))))))"

section \<open>The training driver\<close>

text \<open>The command-line arguments \<^verbatim>\<open>main\<close> reads. \<^verbatim>\<open>load_path\<close> may be \<^verbatim>\<open>None\<close>.\<close>

record args =
  name :: string
  save_dir :: string
  seed :: int
  batch_size :: int
  hidden_size :: int
  drop_prob :: real
  short_test :: bool
  load_path :: "string option"
  word_emb_file :: string
  train_record_file :: string
  dev_record_file :: string
  idx2word_file :: string
  dev_eval_file :: string
  use_squad_v2 :: bool
  num_workers :: int
  num_epochs :: int
  eval_steps :: int
  max_ans_len :: int
  metric_name :: string
  max_grad_norm :: real
  num_visuals :: int
  gpu_ids :: "nat list"

text \<open>
  What the script finds outside itself. The calls that read files or build objects of
  the repository (\<^verbatim>\<open>util.get_save_dir\<close>, \<^verbatim>\<open>util.get_available_devices\<close>,
  \<^verbatim>\<open>util.torch_from_json\<close>, the constructors of the networks and the datasets,
  \<^verbatim>\<open>util.load_model\<close>, \<^verbatim>\<open>load\<close>) are taken to succeed; their results are the fields
  below. The seeding of line 42 and the loader constructors of lines 79 and 85 check
  their arguments and are modelled by \<open>np_random_seed\<close> and \<open>new_loader\<close> below.
  \<open>train_batches e\<close> is the sequence of tuples the shuffling \<^verbatim>\<open>train_loader\<close> yields in
  the pass made during epoch \<open>e\<close>, \<open>train_len\<close> and \<open>dev_len\<close> are
  \<^verbatim>\<open>len(train_dataset)\<close> and \<^verbatim>\<open>len(dev_dataset)\<close>, and \<open>para_forward h\<close> is the forward
  pass of a \<^verbatim>\<open>Paraphraser\<close> built with hidden size \<open>h\<close>, taken to return one sequence
  of token indices for each example of the batch.
\<close>

record ('p, 'g) env =
  new_save_dir :: string
  available_device :: device
  available_gpu_ids :: "nat list"
  bidaf_init :: 'p
  checkpoint :: "string \<Rightarrow> 'p"
  train_len :: nat
  train_batches :: "int \<Rightarrow> tensor list list"
  dev_len :: nat
  dev_batches :: "tensor list list"
  idx2word :: "string \<rightharpoonup> string"
  para_forward :: "int \<Rightarrow> tensor \<Rightarrow> tensor \<Rightarrow> tensor \<Rightarrow> exn + int list list"
  ops :: "('p, 'g) eval_ops"

datatype outcome = Returned | Exited int | Raised exn

text \<open>\<^verbatim>\<open>a // b\<close> on Python integers: floor division, raising on a zero divisor.\<close>

definition floordiv :: "int \<Rightarrow> int \<Rightarrow> exn + int" where
  "floordiv a b = (if b = 0 then Inl ZeroDivisionError else Inr (a div b))"

text \<open>Truth value of \<^verbatim>\<open>args.load_path\<close>: \<^verbatim>\<open>None\<close> and the empty string are false.\<close>

definition truthy :: "string option \<Rightarrow> bool" where
  "truthy v = (case v of None \<Rightarrow> False | Some x \<Rightarrow> x \<noteq> [])"

text \<open>\<^verbatim>\<open>str(n)\<close> for an integer.\<close>

fun str_nat :: "nat \<Rightarrow> string" where
  "str_nat n = (if n < 10 then [''0123456789'' ! n]
                else str_nat (n div 10) @ [''0123456789'' ! (n mod 10)])"

declare str_nat.simps [simp del]

definition py_str :: "int \<Rightarrow> string" where
  "py_str i = (if i < 0 then CHR ''-'' # str_nat (nat (- i)) else str_nat (nat i))"

definition unpack10 ::
  "'a list \<Rightarrow> exn + ('a \<times> 'a \<times> 'a \<times> 'a \<times> 'a \<times> 'a \<times> 'a \<times> 'a \<times> 'a \<times> 'a)" where
  "unpack10 xs =
     (if length xs = 10
      then Inr (xs ! 0, xs ! 1, xs ! 2, xs ! 3, xs ! 4, xs ! 5, xs ! 6, xs ! 7, xs ! 8, xs ! 9)
      else Inl (unpack_error 10 (length xs)))"

text \<open>
  Lines 139 to 143. \<^verbatim>\<open>p[p.nonzero()].squeeze()\<close> keeps the non-zero entries of \<open>p\<close>;
  when exactly one is left, \<^verbatim>\<open>squeeze\<close> gives a 0-d tensor and the comprehension
  cannot iterate over it. The comprehension looks the words up from left to right.
\<close>

fun lookup_words :: "(string \<rightharpoonup> string) \<Rightarrow> int list \<Rightarrow> exn + string list" where
  "lookup_words d [] = Inr []"
| "lookup_words d (i # r) =
     (case getitem d (py_str i) of
        Inl e \<Rightarrow> Inl e
      | Inr x \<Rightarrow> (case lookup_words d r of Inl e \<Rightarrow> Inl e | Inr xs \<Rightarrow> Inr (x # xs)))"

fun join :: "string \<Rightarrow> string list \<Rightarrow> string" where
  "join sep [] = []"
| "join sep [x] = x"
| "join sep (x # y # r) = x @ sep @ join sep (y # r)"

definition decode :: "(string \<rightharpoonup> string) \<Rightarrow> int list \<Rightarrow> exn + string" where
  "decode d p =
     (let non_zeros = filter (\<lambda>x. x \<noteq> 0) p
      in (if length non_zeros = 1 then Inl (TypeError ''iteration over a 0-d tensor'')
          else (case lookup_words d non_zeros of
                  Inl e \<Rightarrow> Inl e
                | Inr sentence_as_list \<Rightarrow> Inr (join '' '' sentence_as_list))))"

fun print_paraphrases ::
  "(string \<rightharpoonup> string) \<Rightarrow> int list list \<Rightarrow> 'z world_scheme \<Rightarrow> exn option \<times> 'z world_scheme" where
  "print_paraphrases d [] w = (None, w)"
| "print_paraphrases d (p # ps) w =
     (case decode d p of
        Inl e \<Rightarrow> (Some e, w)
      | Inr sentence \<Rightarrow> print_paraphrases d ps (emit (Print sentence) w))"

text \<open>
  The variables of \<^verbatim>\<open>main\<close> that change or that the loop reads. The names
  \<^verbatim>\<open>optimizer\<close>, \<^verbatim>\<open>scheduler\<close>, \<^verbatim>\<open>ema\<close>, \<^verbatim>\<open>saver\<close> and \<^verbatim>\<open>model\<close> are read in the
  loop (lines 149 to 186); a name without a binding is \<open>None\<close>, and reading it raises
  \<^verbatim>\<open>NameError\<close>.
\<close>

record 'p mstate = world +
  args :: args
  device :: device
  bidaf_model :: "'p module"
  step :: int
  steps_till_eval :: int
  epoch :: int
  optimizer :: "unit option"
  scheduler :: "unit option"
  ema :: "unit option"
  saver :: "unit option"
  model :: "'p module option"

fun emits :: "event list \<Rightarrow> 'z world_scheme \<Rightarrow> 'z world_scheme" where
  "emits [] w = w"
| "emits (ev # evs) w = emits evs (emit ev w)"

text \<open>
  Lines 149 to 201: the rest of the loop body for a batch of size \<open>bsz\<close>, reached
  outside short-test mode. Each statement reads its names first and then acts.
\<close>

definition evaluate_and_save ::
  "('p, 'g) env \<Rightarrow> 'p module \<Rightarrow> 'p mstate \<Rightarrow> outcome option \<times> 'p mstate" where
  "evaluate_and_save env m s0 =
     (let s1 = s0\<lparr>steps_till_eval := eval_steps (args s0)\<rparr>;
          s2 = emits [Log (LEvaluating (step s1)), EmaAssign] s1
      in (case evaluate (ops env) m (dev_batches env) (device s2) (dev_eval_file (args s2))
                  (max_ans_len (args s2)) (use_squad_v2 (args s2)) s2 of
            (Inl e, m', s3) \<Rightarrow> (Some (Raised e), s3\<lparr>model := Some m'\<rparr>)
          | (Inr (results, pred_dict), m', s3) \<Rightarrow>
             (let s4 = s3\<lparr>model := Some m'\<rparr>
              in (case saver s4 of
                    None \<Rightarrow> (Some (Raised (NameError ''saver'')), s4)
                  | Some _ \<Rightarrow>
                     (case getitem (map_of results) (metric_name (args s4)) of
                        Inl e \<Rightarrow> (Some (Raised e), s4)
                      | Inr _ \<Rightarrow>
                         (None,
                          emits ([SaveCheckpoint (step s4), EmaResume, Log (LDev results),
                                  Log LVisualizing]
                                 @ map (\<lambda>(k, v). AddScalar (''dev/'' @ k) (step s4)) results
                                 @ [Visualize (step s4)]) s4))))))"

definition train_step ::
  "('p, 'g) env \<Rightarrow> tensor \<Rightarrow> tensor \<Rightarrow> tensor \<Rightarrow> tensor \<Rightarrow> nat \<Rightarrow> 'p mstate
     \<Rightarrow> outcome option \<times> 'p mstate" where
  "train_step env cw_idxs qw_idxs y1 y2 bsz s0 =
     (case optimizer s0 of
        None \<Rightarrow> (Some (Raised (NameError ''optimizer'')), s0)
      | Some _ \<Rightarrow>
         (let s1 = emit OptZeroGrad s0
          in (case model s1 of
                None \<Rightarrow> (Some (Raised (NameError ''model'')), s1)
              | Some m \<Rightarrow>
                 (let s2 = emit (Forward (training m) (grad_enabled s1) cw_idxs qw_idxs) s1
                  in (case forward (ops env) m cw_idxs qw_idxs of
                        Inl e \<Rightarrow> (Some (Raised e), s2)
                      | Inr (log_p1, log_p2) \<Rightarrow>
                         (case nll_loss (ops env) log_p1 (to (device s2) y1) of
                            Inl e \<Rightarrow> (Some (Raised e), s2)
                          | Inr l1 \<Rightarrow>
                             (case nll_loss (ops env) log_p2 (to (device s2) y2) of
                                Inl e \<Rightarrow> (Some (Raised e), s2)
                              | Inr l2 \<Rightarrow>
                                 (let s3 = emits [Loss (l1 + l2), Backward, ClipGrad, OptStep] s2
                                  in (case scheduler s3 of
                                        None \<Rightarrow> (Some (Raised (NameError ''scheduler'')), s3)
                                      | Some _ \<Rightarrow>
                                         (case floordiv (step s3) (int bsz) of
                                            Inl e \<Rightarrow> (Some (Raised e), s3)
                                          | Inr q \<Rightarrow>
                                             (let s4 = emit (SchedStep q) s3
                                              in (case ema s4 of
                                                    None \<Rightarrow>
                                                      (Some (Raised (NameError ''ema'')), s4)
                                                  | Some _ \<Rightarrow>
                                                     (let s5 = emit (EmaUpdate q) s4;
                                                          s6 = s5\<lparr>step := step s5 + int bsz\<rparr>;
                                                          s7 = emits
                                                                 [Progress bsz,
                                                                  AddScalar ''train/NLL'' (step s6),
                                                                  AddScalar ''train/LR'' (step s6)]
                                                                 s6;
                                                          s8 = s7\<lparr>steps_till_eval :=
                                                                    steps_till_eval s7 - int bsz\<rparr>
                                                      in (if steps_till_eval s8 \<le> 0
                                                          then evaluate_and_save env m s8
                                                          else (None, s8)))))))))))))))"

text \<open>Lines 118 to 147, then the rest of the body.\<close>

definition train_batch ::
  "('p, 'g) env \<Rightarrow> tensor list \<Rightarrow> 'p mstate \<Rightarrow> outcome option \<times> 'p mstate" where
  "train_batch env b s0 =
     (case unpack10 b of
        Inl e \<Rightarrow> (Some (Raised e), s0)
      | Inr (cw_idxs0, cc_idxs, qw_idxs0, qc_idxs, y1, y2, cphr_idxs0, qphr_idxs0,
             qphr_types0, ids) \<Rightarrow>
         (let cw_idxs = to (device s0) cw_idxs0;
              qw_idxs = to (device s0) qw_idxs0;
              cphr_idxs = to (device s0) cphr_idxs0;
              qphr_idxs = to (device s0) qphr_idxs0;
              qphr_types = to (device s0) qphr_types0
          in (case size0 cw_idxs of
                Inl e \<Rightarrow> (Some (Raised e), s0)
              | Inr bsz \<Rightarrow>
                 (let s1 = emit (ParaForward qphr_idxs qphr_types cphr_idxs) s0
                  in (case para_forward env (hidden_size (args s1)) qphr_idxs qphr_types
                             cphr_idxs of
                        Inl e \<Rightarrow> (Some (Raised e), s1)
                      | Inr paraphrased \<Rightarrow>
                         (case print_paraphrases (idx2word env) paraphrased s1 of
                            (Some e, s2) \<Rightarrow> (Some (Raised e), s2)
                          | (None, s2) \<Rightarrow>
                             (if short_test (args s2) then (Some Returned, s2)
                              else train_step env cw_idxs qw_idxs y1 y2 bsz s2)))))))"

text \<open>The \<^verbatim>\<open>for\<close> loop over one pass of the loader; \<open>None\<close> when the pass is used up.\<close>

fun train_pass ::
  "('p, 'g) env \<Rightarrow> tensor list list \<Rightarrow> 'p mstate \<Rightarrow> outcome option \<times> 'p mstate" where
  "train_pass env [] s = (None, s)"
| "train_pass env (b # bs) s =
     (case train_batch env b s of
        (Some out, s') \<Rightarrow> (Some out, s')
      | (None, s') \<Rightarrow> train_pass env bs s')"

text \<open>
  The \<^verbatim>\<open>while epoch != args.num_epochs\<close> loop (lines 113 to 201). It need not end,
  so its result is an option; falling out of the loop ends \<^verbatim>\<open>main\<close> normally.
\<close>

partial_function (option) epoch_loop ::
  "('p, 'g) env \<Rightarrow> 'p mstate \<Rightarrow> (outcome \<times> 'p mstate) option" where
  "epoch_loop env s =
     (if epoch s = num_epochs (args s) then Some (Returned, s)
      else (let s1 = s\<lparr>epoch := epoch s + 1\<rparr>;
                s2 = emit (Log (LStartingEpoch (epoch s1))) s1
            in (case with_grad True (train_pass env (train_batches env (epoch s2))) s2 of
                  (Some out, s3) \<Rightarrow> Some (out, s3)
                | (None, s3) \<Rightarrow> epoch_loop env s3)))"

text \<open>
  \<^verbatim>\<open>np.random.seed(n)\<close> (line 42) takes the integers from 0 to \<open>2^32 - 1\<close> and raises on
  every other one; \<^verbatim>\<open>random.seed\<close> and the two seeding calls of \<^verbatim>\<open>torch\<close> take each
  integer that it takes.
\<close>

definition np_random_seed :: "int \<Rightarrow> exn + unit" where
  "np_random_seed n =
     (if 0 \<le> n \<and> n < 2 ^ 32 then Inr ()
      else Inl (ValueError ''Seed must be between 0 and 2**32 - 1''))"

text \<open>
  \<^verbatim>\<open>data.DataLoader(dataset, batch_size=bs, shuffle=sh, num_workers=nw, ...)\<close> for a
  dataset of \<open>n\<close> items: the constructor checks \<^verbatim>\<open>num_workers\<close>, then builds the
  sampler, which for \<^verbatim>\<open>shuffle=True\<close> refuses an empty dataset, then the batch sampler,
  which refuses a batch size that is not positive.
\<close>

definition new_loader :: "nat \<Rightarrow> int \<Rightarrow> bool \<Rightarrow> int \<Rightarrow> exn + unit" where
  "new_loader n bs sh nw =
     (if nw < 0
      then Inl (ValueError
                  (''num_workers option should be non-negative; ''
                   @ ''use num_workers=0 to disable multiprocessing.''))
      else if sh \<and> n = 0
      then Inl (ValueError
                  ''num_samples should be a positive integer value, but got num_samples=0'')
      else if bs \<le> 0
      then Inl (ValueError
                  (''batch_size should be a positive integer value, but got batch_size=''
                   @ py_str bs))
      else Inr ())"

text \<open>
  Lines 32 to 40. The counters are assigned at lines 107 to 110 and the BiDAF network
  at line 52; until then 0 and the parameters of a fresh network stand in.
\<close>

definition begin_main :: "('p, 'g) env \<Rightarrow> args \<Rightarrow> 'p mstate" where
  "begin_main env a0 =
     (let a1 = a0\<lparr>save_dir := new_save_dir env, gpu_ids := available_gpu_ids env\<rparr>;
          a2 = a1\<lparr>batch_size := batch_size a1 * max 1 (int (length (gpu_ids a1)))\<rparr>
      in \<lparr>grad_enabled = True,
          trace = [Log LArgs, Log (LSeed (seed a2))],
          args = a2,
          device = available_device env,
          bidaf_model = \<lparr>params = bidaf_init env, training = True, placed = CPU\<rparr>,
          step = 0, steps_till_eval = 0, epoch = 0,
          optimizer = None, scheduler = None, ema = None, saver = None, model = None\<rparr>)"

text \<open>Lines 32 to 55, when the seeding of lines 41 to 44 raises nothing.\<close>

definition init_main :: "('p, 'g) env \<Rightarrow> args \<Rightarrow> 'p mstate" where
  "init_main env a0 =
     (let s0 = begin_main env a0
      in emits [SetSeed (seed (args s0)),
                Log LLoadingEmbeddings, LoadEmbeddings (word_emb_file (args s0)),
                Log LBuildingBiDAF, BuildBiDAF (hidden_size (args s0))] s0)"

text \<open>Lines 64 to 67, for a non-empty \<^verbatim>\<open>load_path\<close>.\<close>

definition path_of :: "string option \<Rightarrow> string" where
  "path_of v = (case v of None \<Rightarrow> [] | Some x \<Rightarrow> x)"

definition load_bidaf :: "('p, 'g) env \<Rightarrow> 'p mstate \<Rightarrow> 'p mstate" where
  "load_bidaf env s0 =
     (let path = path_of (load_path (args s0));
          s1 = emits [Log (LLoadingCheckpoint path), LoadCheckpoint path] s0
      in s1\<lparr>bidaf_model :=
               \<lparr>params = checkpoint env path, training = False, placed = device s1\<rparr>\<rparr>)"

text \<open>Lines 70 to 78, and lines 79 to 84 when the training loader is built.\<close>

definition before_train_loader :: "'p mstate \<Rightarrow> 'p mstate" where
  "before_train_loader s0 =
     emits [BuildParaphraser (hidden_size (args s0)),
            Log LBuildingDataset,
            BuildDataset (train_record_file (args s0))] s0"

definition before_dev_loader :: "'p mstate \<Rightarrow> 'p mstate" where
  "before_dev_loader s0 =
     emits [BuildLoader True (batch_size (args s0)),
            BuildDataset (dev_record_file (args s0))] (before_train_loader s0)"

text \<open>Lines 70 to 109, when both loaders are built.\<close>

definition prepare_training :: "'p mstate \<Rightarrow> 'p mstate" where
  "prepare_training s0 =
     (let s1 = emits [BuildLoader False (batch_size (args s0)),
                      LoadIdx2Word (idx2word_file (args s0))] (before_dev_loader s0);
          s2 = emit (Log LTraining) (s1\<lparr>step := 0\<rparr>)
      in s2\<lparr>steps_till_eval := eval_steps (args s2)\<rparr>)"

text \<open>Lines 70 to 113: the preparation, the first epoch number, the loop.\<close>

definition train :: "('p, 'g) env \<Rightarrow> 'p mstate \<Rightarrow> (outcome \<times> 'p mstate) option" where
  "train env s0 =
     (case new_loader (train_len env) (batch_size (args s0)) True (num_workers (args s0)) of
        Inl e \<Rightarrow> Some (Raised e, before_train_loader s0)
      | Inr _ \<Rightarrow>
         (case new_loader (dev_len env) (batch_size (args s0)) False (num_workers (args s0)) of
            Inl e \<Rightarrow> Some (Raised e, before_dev_loader s0)
          | Inr _ \<Rightarrow>
             (let s3 = prepare_training s0
              in (case floordiv (step s3) (int (train_len env)) of
                    Inl e \<Rightarrow> Some (Raised e, s3)
                  | Inr e0 \<Rightarrow> epoch_loop env (s3\<lparr>epoch := e0\<rparr>)))))"

text \<open>\<^verbatim>\<open>main(args)\<close>. \<^verbatim>\<open>exit(1)\<close> ends the process with status 1.\<close>

definition main :: "('p, 'g) env \<Rightarrow> args \<Rightarrow> (outcome \<times> 'p mstate) option" where
  "main env a0 =
     (case np_random_seed (seed a0) of
        Inl e \<Rightarrow> Some (Raised e, begin_main env a0)
      | Inr _ \<Rightarrow>
         (let s = init_main env a0
          in (if short_test (args s)
              then train env (s\<lparr>args := (args s)\<lparr>hidden_size := 5\<rparr>\<rparr>)
              else if \<not> truthy (load_path (args s))
                   then Some (Exited 1, emit (Log LNoBiDAF) s)
                   else train env (load_bidaf env s))))"

section \<open>Notions used in the statements\<close>

text \<open>The state after line 67 in a run that is not ended there, and at line 113.\<close>

definition after_loading :: "('p, 'g) env \<Rightarrow> args \<Rightarrow> 'p mstate" where
  "after_loading env a =
     (let s = init_main env a
      in (if short_test a then s\<lparr>args := (args s)\<lparr>hidden_size := 5\<rparr>\<rparr>
          else load_bidaf env s))"

definition loop_entry :: "('p, 'g) env \<Rightarrow> args \<Rightarrow> 'p mstate" where
  "loop_entry env a = (prepare_training (after_loading env a))\<lparr>epoch := 0\<rparr>"

text \<open>
  The arguments for which, with a non-empty training set, the seeding of line 42 and the
  loader constructors of lines 79 and 85 raise nothing.
\<close>

definition valid_setup :: "args \<Rightarrow> bool" where
  "valid_setup a \<longleftrightarrow>
     0 \<le> seed a \<and> seed a < 2 ^ 32 \<and> 0 \<le> num_workers a \<and> 0 < batch_size a"

text \<open>
  Sequencing without a handler: when a step raises, what follows is not run and the
  exception is the result.
\<close>

definition or_raise :: "exn + 'a \<Rightarrow> ('a \<Rightarrow> exn + 'b) \<Rightarrow> exn + 'b" where
  "or_raise r k = (case r of Inl e \<Rightarrow> Inl e | Inr x \<Rightarrow> k x)"

definition or_raised :: "exn + 'a \<Rightarrow> ('a \<Rightarrow> outcome option) \<Rightarrow> outcome option" where
  "or_raised r k = (case r of Inl e \<Rightarrow> Some (Raised e) | Inr x \<Rightarrow> k x)"

text \<open>Reading a name that may have no binding.\<close>

definition read_name :: "string \<Rightarrow> 'a option \<Rightarrow> exn + 'a" where
  "read_name n v = (case v of None \<Rightarrow> Inl (NameError n) | Some x \<Rightarrow> Inr x)"

text \<open>
  The sentence of line 143 for a row of predictions whose non-zero entries are all keys
  of the dictionary.
\<close>

definition sentence :: "(string \<rightharpoonup> string) \<Rightarrow> int list \<Rightarrow> string" where
  "sentence d p = join '' '' (map (\<lambda>i. the (d (py_str i))) (filter (\<lambda>x. x \<noteq> 0) p))"

text \<open>Classes of actions.\<close>

fun epoch_start :: "event \<Rightarrow> bool" where
  "epoch_start (Log (LStartingEpoch e)) = True"
| "epoch_start _ = False"

definition epochs_started :: "event list \<Rightarrow> nat" where
  "epochs_started tr = length (filter epoch_start tr)"

fun para_event :: "event \<Rightarrow> bool" where
  "para_event (ParaForward q t c) = True"
| "para_event _ = False"

fun forward_event :: "event \<Rightarrow> bool" where
  "forward_event (Forward tr g a b) = True"
| "forward_event _ = False"

fun training_event :: "event \<Rightarrow> bool" where
  "training_event OptZeroGrad = True"
| "training_event (Forward tr g a b) = True"
| "training_event (Loss l) = True"
| "training_event Backward = True"
| "training_event ClipGrad = True"
| "training_event OptStep = True"
| "training_event (SchedStep n) = True"
| "training_event (EmaUpdate n) = True"
| "training_event _ = False"

fun evaluation_event :: "event \<Rightarrow> bool" where
  "evaluation_event (Log (LEvaluating n)) = True"
| "evaluation_event (Log (LDev r)) = True"
| "evaluation_event (Log LVisualizing) = True"
| "evaluation_event EmaAssign = True"
| "evaluation_event EmaResume = True"
| "evaluation_event (SaveCheckpoint n) = True"
| "evaluation_event (Visualize n) = True"
| "evaluation_event _ = False"

fun load_event :: "event \<Rightarrow> bool" where
  "load_event (LoadCheckpoint f) = True"
| "load_event _ = False"

text \<open>The actions of one batch of the training loop, up to line 147.\<close>

definition batch_events :: "device \<Rightarrow> tensor list \<Rightarrow> event list \<Rightarrow> bool" where
  "batch_events d b evs \<longleftrightarrow>
     evs = [] \<or>
     (length b = 10 \<and>
      (\<exists>xs. evs = ParaForward (to d (b ! 7)) (to d (b ! 8)) (to d (b ! 6)) # map Print xs))"

definition epoch_logs :: "int \<Rightarrow> nat \<Rightarrow> event list" where
  "epoch_logs e k = map (\<lambda>i. Log (LStartingEpoch (e + 1 + int i))) [0..<k]"

text \<open>
  What a finished run of the epoch loop looks like from a state in which
  \<^verbatim>\<open>optimizer\<close> has no binding: \<open>k\<close> iterations were started, and either the loop
  ended at its test, or the last iteration got a batch and left \<^verbatim>\<open>main\<close> in it.
\<close>

definition loop_result ::
  "('p, 'g) env \<Rightarrow> 'p mstate \<Rightarrow> outcome \<times> 'p mstate \<Rightarrow> bool" where
  "loop_result env s y \<longleftrightarrow>
     (\<exists>k evs.
        snd y = s\<lparr>trace := trace s @ epoch_logs (epoch s) k @ evs, epoch := epoch s + int k\<rparr> \<and>
        (\<forall>i<k. epoch s + int i \<noteq> num_epochs (args s)) \<and>
        (evs = [] \<and> fst y = Returned \<and> epoch s + int k = num_epochs (args s) \<or>
         0 < k \<and>
         (\<exists>b\<in>set (train_batches env (epoch s + int k)). batch_events (device s) b evs) \<and>
         (fst y = Returned \<and> short_test (args s) \<or> (\<exists>e. fst y = Raised e))))"

definition eval_event :: "bool \<Rightarrow> bool \<Rightarrow> event \<Rightarrow> bool" where
  "eval_event tr g ev \<longleftrightarrow> (\<exists>a b. ev = Forward tr g a b) \<or> (\<exists>n. ev = Progress n)"

section \<open>Example inputs\<close>

text \<open>
  One batch of two examples, as the collating function lays it out: context and question
  word indices, their character indices, the two span targets, the phrase indices of
  context and question, the question phrase types, and the example ids.
\<close>

definition ex_cw :: tensor where
  "ex_cw = \<lparr>dev = CPU, shape = [2, 2], elems = [4, 9, 6, 0]\<rparr>"

definition ex_cc :: tensor where
  "ex_cc = \<lparr>dev = CPU, shape = [2, 2, 1], elems = [1, 2, 3, 0]\<rparr>"

definition ex_qw :: tensor where
  "ex_qw = \<lparr>dev = CPU, shape = [2, 1], elems = [5, 8]\<rparr>"

definition ex_qc :: tensor where
  "ex_qc = \<lparr>dev = CPU, shape = [2, 1, 1], elems = [7, 7]\<rparr>"

definition ex_y1 :: tensor where
  "ex_y1 = \<lparr>dev = CPU, shape = [2], elems = [0, 1]\<rparr>"

definition ex_y2 :: tensor where
  "ex_y2 = \<lparr>dev = CPU, shape = [2], elems = [1, 1]\<rparr>"

definition ex_cphr :: tensor where
  "ex_cphr = \<lparr>dev = CPU, shape = [2, 2], elems = [3, 7, 3, 0]\<rparr>"

definition ex_qphr :: tensor where
  "ex_qphr = \<lparr>dev = CPU, shape = [2, 1], elems = [3, 7]\<rparr>"

definition ex_qtypes :: tensor where
  "ex_qtypes = \<lparr>dev = CPU, shape = [2, 1], elems = [1, 2]\<rparr>"

definition ex_ids :: tensor where
  "ex_ids = \<lparr>dev = CPU, shape = [2], elems = [1, 2]\<rparr>"

definition ex_batch :: "tensor list" where
  "ex_batch = [ex_cw, ex_cc, ex_qw, ex_qc, ex_y1, ex_y2, ex_cphr, ex_qphr, ex_qtypes, ex_ids]"

definition ex_dev_batch :: "tensor list" where
  "ex_dev_batch = [ex_cw, ex_cc, ex_qw, ex_qc, ex_y1, ex_y2, ex_ids]"

definition ex_ops :: "(nat, unit) eval_ops" where
  "ex_ops = \<lparr>open_json = (\<lambda>f. Inr ()),
            forward = (\<lambda>m a b. Inr (a, b)),
            nll_loss = (\<lambda>a b. Inr 1),
            texp = (\<lambda>t. t),
            discretize = (\<lambda>a b n v. Inr (a, b)),
            convert_tokens = (\<lambda>g i st en v. Inr (Map.empty, Map.empty)),
            eval_dicts = (\<lambda>g pd v. Inr (map_of [(''F1'', 50), (''EM'', 40), (''AvNA'', 60)])),
            meter_avg = (\<lambda>xs. 2)\<rparr>"

definition ex_failing_ops :: "(nat, unit) eval_ops" where
  "ex_failing_ops = ex_ops\<lparr>forward := (\<lambda>m a b. Inl (FrameworkError ''CUDA out of memory''))\<rparr>"

definition ex_module :: "nat module" where
  "ex_module = \<lparr>params = 1, training = True, placed = CUDA 0\<rparr>"

definition ex_world :: world where
  "ex_world = \<lparr>grad_enabled = True, trace = []\<rparr>"

definition ex_env :: "(nat, unit) env" where
  "ex_env = \<lparr>new_save_dir = ''save/train/para-01'',
            available_device = CUDA 0,
            available_gpu_ids = [0],
            bidaf_init = 0,
            checkpoint = (\<lambda>f. 1),
            train_len = 2,
            train_batches = (\<lambda>e. [ex_batch]),
            dev_len = 2,
            dev_batches = [ex_batch],
            idx2word = map_of [(''3'', ''what''), (''7'', ''is'')],
            para_forward = (\<lambda>h q t c. Inr [[3, 0, 7], [0, 0, 0]]),
            ops = ex_ops\<rparr>"

definition ex_args :: args where
  "ex_args = \<lparr>name = ''para'', save_dir = ''save'', seed = 224, batch_size = 64,
             hidden_size = 100, drop_prob = 0, short_test = False,
             load_path = Some ''save/train/bidaf-01/best.pth.tar'',
             word_emb_file = ''data/word_emb.json'',
             train_record_file = ''data/train.npz'',
             dev_record_file = ''data/dev.npz'',
             idx2word_file = ''data/idx2word.json'',
             dev_eval_file = ''data/dev_eval.json'',
             use_squad_v2 = True, num_workers = 4, num_epochs = 30, eval_steps = 50000,
             max_ans_len = 15, metric_name = ''F1'', max_grad_norm = 5, num_visuals = 10,
             gpu_ids = []\<rparr>"

definition ex_short_args :: args where
  "ex_short_args = ex_args\<lparr>short_test := True\<rparr>"

definition ex_nopath_args :: args where
  "ex_nopath_args = ex_args\<lparr>load_path := None\<rparr>"

definition ex_eager_args :: args where
  "ex_eager_args = ex_args\<lparr>eval_steps := 1\<rparr>"

definition ex_badseed_args :: args where
  "ex_badseed_args = ex_nopath_args\<lparr>seed := - 1\<rparr>"

definition ex_short_badseed_args :: args where
  "ex_short_badseed_args = ex_short_args\<lparr>seed := - 1\<rparr>"


definition ex_empty_env :: "(nat, unit) env" where
  "ex_empty_env = ex_env\<lparr>train_len := 0, train_batches := (\<lambda>e. [])\<rparr>"

definition ex_failing_env :: "(nat, unit) env" where
  "ex_failing_env =
     ex_env\<lparr>para_forward := (\<lambda>h q t c. Inl (FrameworkError ''CUDA out of memory''))\<rparr>"

section \<open>Traces and the shape of runs\<close>

lemma emit_eq: "emit ev w = w\<lparr>trace := trace w @ [ev]\<rparr>"
  by (simp add: emit_def)

lemma emits_eq: "emits evs w = w\<lparr>trace := trace w @ evs\<rparr>"
  by (induction evs arbitrary: w) (simp_all add: emit_def)

lemma print_paraphrases_shape:
  "\<exists>r xs. print_paraphrases d ps w = (r, w\<lparr>trace := trace w @ map Print xs\<rparr>)"
proof (induction ps arbitrary: w)
  case Nil
  show ?case by (rule exI[of _ None], rule exI[of _ "[]"]) simp
next
  case (Cons p ps)
  show ?case
  proof (cases "decode d p")
    case (Inl e)
    show ?thesis by (rule exI[of _ "Some e"], rule exI[of _ "[]"]) (simp add: Inl)
  next
    case (Inr x)
    from Cons.IH[of "emit (Print x) w"] obtain r xs where
      "print_paraphrases d ps (emit (Print x) w) = (r, (emit (Print x) w)\<lparr>trace := trace (emit (Print x) w) @ map Print xs\<rparr>)"
      by blast
    then show ?thesis
      by (intro exI[of _ r] exI[of _ "x # xs"]) (simp add: Inr emit_eq)
  qed
qed

lemma print_paraphrases_ok:
  "list_all2 (\<lambda>p x. decode d p = Inr x) ps xs \<Longrightarrow>
   print_paraphrases d ps w = (None, w\<lparr>trace := trace w @ map Print xs\<rparr>)"
  by (induction ps xs arbitrary: w rule: list_all2_induct) (simp_all add: emit_eq)

lemma train_step_unbound:
  "optimizer s = None \<Longrightarrow>
   train_step env cw qw y1 y2 n s = (Some (Raised (NameError ''optimizer'')), s)"
  by (simp add: train_step_def)

lemma train_batch_exits:
  assumes "optimizer s = None"
  shows "\<exists>out evs. train_batch env b s = (Some out, s\<lparr>trace := trace s @ evs\<rparr>) \<and>
           batch_events (device s) b evs \<and>
           (out = Returned \<and> short_test (args s) \<or> (\<exists>e. out = Raised e))"
proof (cases "unpack10 b")
  case (Inl e)
  then show ?thesis
    by (intro exI[of _ "Raised e"] exI[of _ "[]"]) (simp add: train_batch_def batch_events_def)
next
  case (Inr tup)
  then have len: "length b = 10"
    by (simp add: unpack10_def split: if_splits)
  with Inr have tup: "tup = (b ! 0, b ! 1, b ! 2, b ! 3, b ! 4, b ! 5, b ! 6, b ! 7, b ! 8, b ! 9)"
    by (simp add: unpack10_def)
  let ?q = "to (device s) (b ! 7)" and ?t = "to (device s) (b ! 8)"
    and ?c = "to (device s) (b ! 6)"
  let ?s1 = "emit (ParaForward ?q ?t ?c) s"
  show ?thesis
  proof (cases "size0 (to (device s) (b ! 0))")
    case (Inl e)
    then show ?thesis using Inr tup
      by (intro exI[of _ "Raised e"] exI[of _ "[]"]) (simp add: train_batch_def batch_events_def)
  next
    case sz: (Inr n)
    show ?thesis
    proof (cases "para_forward env (hidden_size (args s)) ?q ?t ?c")
      case (Inl e)
      then show ?thesis using Inr tup sz len
        by (intro exI[of _ "Raised e"] exI[of _ "[ParaForward ?q ?t ?c]"])
           (simp add: train_batch_def batch_events_def emit_eq)
    next
      case pf: (Inr ps)
      obtain r xs where pr: "print_paraphrases (idx2word env) ps ?s1
          = (r, ?s1\<lparr>trace := trace ?s1 @ map Print xs\<rparr>)"
        using print_paraphrases_shape by blast
      have ev: "batch_events (device s) b (ParaForward ?q ?t ?c # map Print xs)"
        using len by (auto simp add: batch_events_def)
      show ?thesis
      proof (cases r)
        case None
        show ?thesis
        proof (cases "short_test (args s)")
          case True
          then show ?thesis using Inr tup sz pf pr None ev
            by (intro exI[of _ Returned] exI[of _ "ParaForward ?q ?t ?c # map Print xs"])
               (simp add: train_batch_def emit_eq)
        next
          case False
          then show ?thesis using Inr tup sz pf pr None ev assms
            by (intro exI[of _ "Raised (NameError ''optimizer'')"]
                  exI[of _ "ParaForward ?q ?t ?c # map Print xs"])
               (simp add: train_batch_def emit_eq train_step_unbound)
        qed
      next
        case (Some e)
        then show ?thesis using Inr tup sz pf pr ev
          by (intro exI[of _ "Raised e"] exI[of _ "ParaForward ?q ?t ?c # map Print xs"])
             (simp add: train_batch_def emit_eq)
      qed
    qed
  qed
qed

lemma epoch_logs_0: "epoch_logs e 0 = []"
  by (simp add: epoch_logs_def)

lemma epoch_logs_Suc: "epoch_logs e (Suc k) = Log (LStartingEpoch (e + 1)) # epoch_logs (e + 1) k"
proof -
  have "[0..<Suc k] = 0 # map Suc [0..<k]"
    by (simp add: upt_conv_Cons map_Suc_upt del: upt_Suc)
  then show ?thesis
    by (simp add: epoch_logs_def comp_def add.commute add.left_commute del: upt_Suc)
qed

lemma train_pass_Nil_grad:
  "with_grad g (train_pass env []) s = (None, s)"
  by (simp add: with_grad_def)

lemma train_pass_Cons_grad:
  assumes "optimizer s = None"
  shows "\<exists>out evs. with_grad g (train_pass env (b # bs)) s = (Some out, s\<lparr>trace := trace s @ evs\<rparr>) \<and>
           batch_events (device s) b evs \<and>
           (out = Returned \<and> short_test (args s) \<or> (\<exists>e. out = Raised e))"
proof -
  let ?s = "s\<lparr>grad_enabled := g\<rparr>"
  have "optimizer ?s = None" using assms by simp
  from train_batch_exits[OF this, of env b] obtain out evs where
    tb: "train_batch env b ?s = (Some out, ?s\<lparr>trace := trace ?s @ evs\<rparr>)"
    and ev: "batch_events (device ?s) b evs"
    and oc: "out = Returned \<and> short_test (args ?s) \<or> (\<exists>e. out = Raised e)"
    by blast
  show ?thesis
    using tb ev oc
    by (intro exI[of _ out] exI[of _ evs]) (simp add: with_grad_def)
qed

lemma epoch_loop_shape:
  assumes "epoch_loop env s = Some y"
  shows "optimizer s = None \<longrightarrow> loop_result env s y"
  using assms
proof (induction env s y rule: epoch_loop.raw_induct[rotated, consumes 1, case_names step])
  case (step loop env s y)
  note 1 = step
  show ?case
  proof
    assume unb: "optimizer s = None"
    show "loop_result env s y"
    proof (cases "epoch s = num_epochs (args s)")
      case True
      with 1(2) have "y = (Returned, s)" by simp
      then show ?thesis
        unfolding loop_result_def using True
        by (intro exI[of _ 0] exI[of _ "[]"]) (simp add: epoch_logs_0)
    next
      case False
      let ?s2 = "emit (Log (LStartingEpoch (epoch s + 1))) (s\<lparr>epoch := epoch s + 1\<rparr>)"
      have unb2: "optimizer ?s2 = None" using unb by (simp add: emit_eq)
      show ?thesis
      proof (cases "train_batches env (epoch s + 1)")
        case Nil
        with 1(2) False have "loop env ?s2 = Some y"
          by (simp add: Let_def train_pass_Nil_grad emit_eq)
        from 1(1)[OF this] unb2 have "loop_result env ?s2 y" by simp
        then obtain k evs where
          sy: "snd y = ?s2\<lparr>trace := trace ?s2 @ epoch_logs (epoch ?s2) k @ evs,
                          epoch := epoch ?s2 + int k\<rparr>"
          and ne: "\<forall>i<k. epoch ?s2 + int i \<noteq> num_epochs (args ?s2)"
          and fin: "evs = [] \<and> fst y = Returned \<and> epoch ?s2 + int k = num_epochs (args ?s2) \<or>
             0 < k \<and> (\<exists>b\<in>set (train_batches env (epoch ?s2 + int k)). batch_events (device ?s2) b evs) \<and>
             (fst y = Returned \<and> short_test (args ?s2) \<or> (\<exists>e. fst y = Raised e))"
          unfolding loop_result_def by blast
        have ne': "\<forall>i<Suc k. epoch s + int i \<noteq> num_epochs (args s)"
        proof (intro allI impI)
          fix i assume "i < Suc k"
          show "epoch s + int i \<noteq> num_epochs (args s)"
          proof (cases i)
            case 0 then show ?thesis using False by simp
          next
            case (Suc j)
            with \<open>i < Suc k\<close> have "j < k" by simp
            with ne have "epoch ?s2 + int j \<noteq> num_epochs (args ?s2)" by blast
            then show ?thesis using Suc by (simp add: emit_eq)
          qed
        qed
        show ?thesis
          unfolding loop_result_def
          apply (rule exI[of _ "Suc k"], rule exI[of _ evs])
          using sy ne' fin
          by (auto simp add: emit_eq epoch_logs_Suc add.assoc)
      next
        case (Cons b bs)
        from train_pass_Cons_grad[OF unb2, of True env b bs] obtain out evs where
          wg: "with_grad True (train_pass env (b # bs)) ?s2 = (Some out, ?s2\<lparr>trace := trace ?s2 @ evs\<rparr>)"
          and ev: "batch_events (device ?s2) b evs"
          and oc: "out = Returned \<and> short_test (args ?s2) \<or> (\<exists>e. out = Raised e)"
          by blast
        from 1(2) False Cons wg have y: "y = (out, ?s2\<lparr>trace := trace ?s2 @ evs\<rparr>)"
          by (simp add: Let_def emit_eq)
        have hd: "epoch_logs (epoch s) (Suc 0) = [Log (LStartingEpoch (epoch s + 1))]"
          by (simp add: epoch_logs_Suc epoch_logs_0)
        show ?thesis
          unfolding loop_result_def
          apply (rule exI[of _ "Suc 0"], rule exI[of _ evs])
          using y ev oc False Cons hd
          by (auto simp add: emit_eq)
      qed
    qed
  qed
qed

lemma eval_batch_shape:
  assumes "eval_batch eops m d gold ml sq b acc w = (r, w')"
  shows "\<exists>evs. w' = w\<lparr>trace := trace w @ evs\<rparr> \<and>
           (\<forall>ev\<in>set evs. eval_event (training m) (grad_enabled w) ev)"
proof -
  let ?F = "Forward (training m) (grad_enabled w) (to d (b ! 0)) (to d (b ! 2))"
  have "w' = w \<or> w' = w\<lparr>trace := trace w @ [?F]\<rparr> \<or>
        (\<exists>n. w' = w\<lparr>trace := trace w @ [?F, Progress n]\<rparr>)"
    using assms
    by (auto simp add: eval_batch_def unpack7_def emit_eq Let_def
             split: if_splits sum.splits prod.splits)
  then consider "w' = w\<lparr>trace := trace w @ []\<rparr>" | "w' = w\<lparr>trace := trace w @ [?F]\<rparr>"
    | n where "w' = w\<lparr>trace := trace w @ [?F, Progress n]\<rparr>"
    by auto
  then show ?thesis
  proof cases
    case 1
    then show ?thesis by (intro exI[of _ "[]"]) simp
  next
    case 2
    then show ?thesis by (intro exI[of _ "[?F]"]) (simp add: eval_event_def)
  next
    case 3
    then show ?thesis by (intro exI[of _ "[?F, Progress n]"]) (simp add: eval_event_def)
  qed
qed

lemma eval_batches_shape:
  "eval_batches eops m d gold ml sq bs acc w = (r, w') \<Longrightarrow>
   \<exists>evs. w' = w\<lparr>trace := trace w @ evs\<rparr> \<and>
         (\<forall>ev\<in>set evs. eval_event (training m) (grad_enabled w) ev)"
proof (induction bs arbitrary: acc w)
  case Nil
  then show ?case by (intro exI[of _ "[]"]) simp
next
  case (Cons b bs)
  obtain r1 w1 where b1: "eval_batch eops m d gold ml sq b acc w = (r1, w1)"
    by (cases "eval_batch eops m d gold ml sq b acc w")
  from eval_batch_shape[OF b1] obtain evs1 where
    w1: "w1 = w\<lparr>trace := trace w @ evs1\<rparr>"
    and e1: "\<forall>ev\<in>set evs1. eval_event (training m) (grad_enabled w) ev"
    by blast
  show ?case
  proof (cases r1)
    case (Inl e)
    with Cons.prems b1 have "w' = w1" by simp
    with w1 e1 show ?thesis by blast
  next
    case (Inr acc1)
    with Cons.prems b1 have "eval_batches eops m d gold ml sq bs acc1 w1 = (r, w')" by simp
    from Cons.IH[OF this] obtain evs2 where
      w2: "w' = w1\<lparr>trace := trace w1 @ evs2\<rparr>"
      and e2: "\<forall>ev\<in>set evs2. eval_event (training m) (grad_enabled w1) ev"
      by blast
    show ?thesis
      using w1 w2 e1 e2 by (intro exI[of _ "evs1 @ evs2"]) auto
  qed
qed

lemma init_main_fields:
  "short_test (args (init_main env a)) = short_test a"
  "load_path (args (init_main env a)) = load_path a"
  "num_epochs (args (init_main env a)) = num_epochs a"
  "hidden_size (args (init_main env a)) = hidden_size a"
  "optimizer (init_main env a) = None"
  "device (init_main env a) = available_device env"
  "bidaf_model (init_main env a) = \<lparr>params = bidaf_init env, training = True, placed = CPU\<rparr>"
  "trace (init_main env a) =
     [Log LArgs, Log (LSeed (seed a)), SetSeed (seed a), Log LLoadingEmbeddings,
      LoadEmbeddings (word_emb_file a), Log LBuildingBiDAF, BuildBiDAF (hidden_size a)]"
  by (simp_all add: init_main_def begin_main_def Let_def emits_eq)

lemma init_main_args:
  "seed (args (init_main env a)) = seed a"
  "num_workers (args (init_main env a)) = num_workers a"
  "batch_size (args (init_main env a)) =
     batch_size a * max 1 (int (length (available_gpu_ids env)))"
  by (simp_all add: init_main_def begin_main_def Let_def emits_eq)

lemma begin_main_trace: "trace (begin_main env a) = [Log LArgs, Log (LSeed (seed a))]"
  by (simp add: begin_main_def Let_def)

lemma begin_main_fields:
  "bidaf_model (begin_main env a) = \<lparr>params = bidaf_init env, training = True, placed = CPU\<rparr>"
  "short_test (args (begin_main env a)) = short_test a"
  by (simp_all add: begin_main_def Let_def)

lemma after_loading_fields:
  "short_test (args (after_loading env a)) = short_test a"
  "num_epochs (args (after_loading env a)) = num_epochs a"
  "hidden_size (args (after_loading env a)) = (if short_test a then 5 else hidden_size a)"
  "optimizer (after_loading env a) = None"
  "device (after_loading env a) = available_device env"
  "bidaf_model (after_loading env a) =
     (if short_test a then \<lparr>params = bidaf_init env, training = True, placed = CPU\<rparr>
      else \<lparr>params = checkpoint env (path_of (load_path a)), training = False,
             placed = available_device env\<rparr>)"
  by (simp_all add: after_loading_def load_bidaf_def Let_def emits_eq init_main_fields)

lemma prepare_training_eq:
  "prepare_training s =
     s\<lparr>trace := trace s @
          [BuildParaphraser (hidden_size (args s)), Log LBuildingDataset,
           BuildDataset (train_record_file (args s)), BuildLoader True (batch_size (args s)),
           BuildDataset (dev_record_file (args s)), BuildLoader False (batch_size (args s)),
           LoadIdx2Word (idx2word_file (args s)), Log LTraining],
        step := 0, steps_till_eval := eval_steps (args s)\<rparr>"
  by (simp add: prepare_training_def before_dev_loader_def before_train_loader_def Let_def
        emits_eq emit_eq)

lemma before_train_loader_eq:
  "before_train_loader s =
     s\<lparr>trace := trace s @
          [BuildParaphraser (hidden_size (args s)), Log LBuildingDataset,
           BuildDataset (train_record_file (args s))]\<rparr>"
  by (simp add: before_train_loader_def emits_eq)

lemma after_loading_args:
  "num_workers (args (after_loading env a)) = num_workers a"
  "batch_size (args (after_loading env a)) =
     batch_size a * max 1 (int (length (available_gpu_ids env)))"
  by (simp_all add: after_loading_def load_bidaf_def Let_def emits_eq init_main_args)

lemma scaled_batch_size: "0 < b * max 1 (int k) \<longleftrightarrow> 0 < (b::int)"
  by (simp add: zero_less_mult_iff max_def)

lemma new_loader_ok:
  "new_loader n bs sh nw = Inr u \<longleftrightarrow> 0 \<le> nw \<and> (sh \<longrightarrow> 0 < n) \<and> 0 < bs"
  by (auto simp add: new_loader_def)

lemma new_loader_fails:
  "new_loader n bs sh nw = Inl e \<Longrightarrow> \<exists>msg. e = ValueError msg"
  by (auto simp add: new_loader_def split: if_splits)

lemma loop_entry_fields:
  "short_test (args (loop_entry env a)) = short_test a"
  "num_epochs (args (loop_entry env a)) = num_epochs a"
  "hidden_size (args (loop_entry env a)) = (if short_test a then 5 else hidden_size a)"
  "optimizer (loop_entry env a) = None"
  "device (loop_entry env a) = available_device env"
  "epoch (loop_entry env a) = 0"
  "bidaf_model (loop_entry env a) = bidaf_model (after_loading env a)"
  by (simp_all add: loop_entry_def prepare_training_eq after_loading_fields)

lemma main_unfold:
  "main env a =
     (case np_random_seed (seed a) of
        Inl e \<Rightarrow> Some (Raised e, begin_main env a)
      | Inr u \<Rightarrow>
         (if \<not> short_test a \<and> \<not> truthy (load_path a)
          then Some (Exited 1, emit (Log LNoBiDAF) (init_main env a))
          else (case new_loader (train_len env)
                       (batch_size a * max 1 (int (length (available_gpu_ids env)))) True
                       (num_workers a) of
                  Inl e \<Rightarrow> Some (Raised e, before_train_loader (after_loading env a))
                | Inr u \<Rightarrow> epoch_loop env (loop_entry env a))))"
proof (cases "np_random_seed (seed a)")
  case (Inl e)
  then show ?thesis by (simp add: main_def)
next
  case seeded: (Inr u)
  show ?thesis
  proof (cases "\<not> short_test a \<and> \<not> truthy (load_path a)")
    case True
    with seeded show ?thesis by (simp add: main_def Let_def init_main_fields)
  next
    case False
    then have m: "main env a = train env (after_loading env a)"
      using seeded by (auto simp add: main_def after_loading_def Let_def init_main_fields)
    show ?thesis
    proof (cases "new_loader (train_len env)
                    (batch_size a * max 1 (int (length (available_gpu_ids env)))) True
                    (num_workers a)")
      case (Inl e)
      with m seeded False show ?thesis
        by (simp add: train_def after_loading_args)
    next
      case (Inr v)
      then have ok: "0 \<le> num_workers a" "0 < train_len env"
        "0 < batch_size a * max 1 (int (length (available_gpu_ids env)))"
        by (simp_all add: new_loader_ok)
      then have dev: "new_loader (dev_len env)
                    (batch_size a * max 1 (int (length (available_gpu_ids env)))) False
                    (num_workers a) = Inr ()"
        by (simp add: new_loader_ok)
      have "step (prepare_training (after_loading env a)) = 0"
        by (simp add: prepare_training_eq)
      with Inr dev ok(2)
      have "train env (after_loading env a) = epoch_loop env (loop_entry env a)"
        by (simp add: train_def after_loading_args Let_def floordiv_def loop_entry_def)
      with m seeded False Inr show ?thesis
        by auto
    qed
  qed
qed

lemma seed_ok: "np_random_seed n = Inr u \<longleftrightarrow> 0 \<le> n \<and> n < 2 ^ 32"
  by (simp add: np_random_seed_def)

lemma main_reaches_loop:
  assumes "valid_setup a" "short_test a \<or> truthy (load_path a)" "0 < train_len env"
  shows "main env a = epoch_loop env (loop_entry env a)"
proof -
  have "np_random_seed (seed a) = Inr ()"
    using assms(1) by (simp add: seed_ok valid_setup_def)
  moreover have "new_loader (train_len env)
                    (batch_size a * max 1 (int (length (available_gpu_ids env)))) True
                    (num_workers a) = Inr ()"
    using assms(1,3) by (simp add: new_loader_ok valid_setup_def scaled_batch_size)
  ultimately show ?thesis
    using assms(2) by (auto simp add: main_unfold)
qed

lemma epoch_loop_terminates:
  assumes "optimizer s = None" "epoch s \<le> num_epochs (args s)"
  shows "\<exists>y. epoch_loop env s = Some y"
  using assms
proof (induction "nat (num_epochs (args s) - epoch s)" arbitrary: s)
  case 0
  then have "epoch s = num_epochs (args s)" by simp
  then show ?case by (subst epoch_loop.simps) simp
next
  case (Suc n)
  then have ne: "epoch s \<noteq> num_epochs (args s)" by auto
  let ?s2 = "emit (Log (LStartingEpoch (epoch s + 1))) (s\<lparr>epoch := epoch s + 1\<rparr>)"
  have unb2: "optimizer ?s2 = None" using Suc.prems by (simp add: emit_eq)
  show ?case
  proof (cases "train_batches env (epoch s + 1)")
    case Nil
    have "n = nat (num_epochs (args ?s2) - epoch ?s2)"
      using Suc.hyps(2) by (simp add: emit_eq)
    moreover have "epoch ?s2 \<le> num_epochs (args ?s2)"
      using Suc.prems ne by (simp add: emit_eq)
    ultimately obtain y where "epoch_loop env ?s2 = Some y"
      using Suc.hyps(1)[of ?s2] unb2 by blast
    then show ?thesis
      using ne Nil
      by (subst epoch_loop.simps) (simp add: Let_def train_pass_Nil_grad emit_eq)
  next
    case (Cons b bs)
    from train_pass_Cons_grad[OF unb2, of True env b bs] obtain out evs where
      "with_grad True (train_pass env (b # bs)) ?s2 = (Some out, ?s2\<lparr>trace := trace ?s2 @ evs\<rparr>)"
      by blast
    then show ?thesis
      using ne Cons
      by (subst epoch_loop.simps) (simp add: Let_def emit_eq)
  qed
qed

lemma train_batch_ok:
  assumes "optimizer s = None" "length b = 10" "shape (b ! 0) \<noteq> []"
    and "para_forward env (hidden_size (args s)) (to (device s) (b ! 7)) (to (device s) (b ! 8))
           (to (device s) (b ! 6)) = Inr ps"
    and "list_all2 (\<lambda>p x. decode (idx2word env) p = Inr x) ps xs"
  shows "train_batch env b s =
           (Some (if short_test (args s) then Returned else Raised (NameError ''optimizer'')),
            s\<lparr>trace := trace s @ ParaForward (to (device s) (b ! 7)) (to (device s) (b ! 8))
                                  (to (device s) (b ! 6)) # map Print xs\<rparr>)"
proof -
  obtain n r where sh: "shape (b ! 0) = n # r"
    using assms(3) by (cases "shape (b ! 0)") auto
  have sz: "size0 (to (device s) (b ! 0)) = Inr n"
    by (simp add: size0_def to_def sh)
  show ?thesis
    using assms(1,2,4) sz
    by (simp add: train_batch_def unpack10_def emit_eq train_step_unbound
          print_paraphrases_ok[OF assms(5)])
qed

lemma train_batch_forward_raises:
  assumes "length b = 10" "shape (b ! 0) \<noteq> []"
    and "para_forward env (hidden_size (args s)) (to (device s) (b ! 7)) (to (device s) (b ! 8))
           (to (device s) (b ! 6)) = Inl e"
  shows "train_batch env b s =
           (Some (Raised e),
            s\<lparr>trace := trace s @ [ParaForward (to (device s) (b ! 7)) (to (device s) (b ! 8))
                                  (to (device s) (b ! 6))]\<rparr>)"
proof -
  obtain n r where sh: "shape (b ! 0) = n # r"
    using assms(2) by (cases "shape (b ! 0)") auto
  have sz: "size0 (to (device s) (b ! 0)) = Inr n"
    by (simp add: size0_def to_def sh)
  show ?thesis
    using assms(1,3) sz
    by (simp add: train_batch_def unpack10_def emit_eq)
qed

lemma epoch_loop_first:
  assumes "epoch s \<noteq> num_epochs (args s)" "train_batches env (epoch s + 1) = b # bs"
    and "train_batch env b
           (s\<lparr>grad_enabled := True,
              trace := trace s @ [Log (LStartingEpoch (epoch s + 1))],
              epoch := epoch s + 1\<rparr>) = (Some out, s')"
  shows "epoch_loop env s = Some (out, s'\<lparr>grad_enabled := grad_enabled s\<rparr>)"
proof -
  let ?s2 = "emit (Log (LStartingEpoch (epoch s + 1))) (s\<lparr>epoch := epoch s + 1\<rparr>)"
  have "?s2\<lparr>grad_enabled := True\<rparr> =
          s\<lparr>grad_enabled := True, trace := trace s @ [Log (LStartingEpoch (epoch s + 1))],
            epoch := epoch s + 1\<rparr>"
    by (simp add: emit_eq)
  with assms(3) have "train_batch env b (?s2\<lparr>grad_enabled := True\<rparr>) = (Some out, s')"
    by simp
  then have "with_grad True (train_pass env (b # bs)) ?s2
               = (Some out, s'\<lparr>grad_enabled := grad_enabled s\<rparr>)"
    by (simp add: with_grad_def emit_eq)
  then show ?thesis
    using assms(1,2)
    by (subst epoch_loop.simps) (simp add: Let_def emit_eq)
qed

lemma loop_entry_grad: "grad_enabled (loop_entry env a) = True"
  by (simp add: loop_entry_def prepare_training_eq after_loading_def load_bidaf_def Let_def
        emits_eq init_main_def begin_main_def)

lemma main_first_batch:
  assumes valid: "valid_setup a" and passed: "short_test a \<or> truthy (load_path a)"
    and len: "0 < train_len env" and ne: "num_epochs a \<noteq> 0"
    and bs: "train_batches env 1 = b # bs"
    and b: "length b = 10" "shape (b ! 0) \<noteq> []"
    and pf: "para_forward env (if short_test a then 5 else hidden_size a)
               (to (available_device env) (b ! 7)) (to (available_device env) (b ! 8))
               (to (available_device env) (b ! 6)) = Inr ps"
    and dec: "list_all2 (\<lambda>p x. decode (idx2word env) p = Inr x) ps xs"
  shows "main env a =
           Some (if short_test a then Returned else Raised (NameError ''optimizer''),
                 (loop_entry env a)
                   \<lparr>trace := trace (loop_entry env a) @
                       Log (LStartingEpoch 1) #
                       ParaForward (to (available_device env) (b ! 7))
                         (to (available_device env) (b ! 8))
                         (to (available_device env) (b ! 6)) # map Print xs,
                    epoch := 1\<rparr>)"
proof -
  let ?e = "loop_entry env a"
  let ?s = "?e\<lparr>grad_enabled := True, trace := trace ?e @ [Log (LStartingEpoch (epoch ?e + 1))],
               epoch := epoch ?e + 1\<rparr>"
  have m: "main env a = epoch_loop env ?e"
    using valid passed len by (rule main_reaches_loop)
  have tb: "train_batch env b ?s =
      (Some (if short_test (args ?s) then Returned else Raised (NameError ''optimizer'')),
       ?s\<lparr>trace := trace ?s @ ParaForward (to (device ?s) (b ! 7)) (to (device ?s) (b ! 8))
                                  (to (device ?s) (b ! 6)) # map Print xs\<rparr>)"
    by (rule train_batch_ok[OF _ b _ dec]) (simp_all add: loop_entry_fields pf)
  have "epoch_loop env ?e = Some (if short_test (args ?s) then Returned else Raised (NameError ''optimizer''),
       (?s\<lparr>trace := trace ?s @ ParaForward (to (device ?s) (b ! 7)) (to (device ?s) (b ! 8))
                                  (to (device ?s) (b ! 6)) # map Print xs\<rparr>)\<lparr>grad_enabled := grad_enabled ?e\<rparr>)"
    by (rule epoch_loop_first[OF _ _ tb]) (simp_all add: loop_entry_fields ne[symmetric] bs)
  then show ?thesis
    using m by (simp add: loop_entry_fields loop_entry_grad)
qed

lemma ex_decode: "list_all2 (\<lambda>p x. decode (idx2word ex_env) p = Inr x) [[3, 0, 7], [0, 0, 0]] [''what is'', '''']"
  by (simp add: decode_def ex_env_def getitem_def py_str_def str_nat.simps)

lemma loop_entry_trace:
  "trace (loop_entry env a) =
     [Log LArgs, Log (LSeed (seed a)), SetSeed (seed a), Log LLoadingEmbeddings,
      LoadEmbeddings (word_emb_file a), Log LBuildingBiDAF, BuildBiDAF (hidden_size a)] @
     (if short_test a then []
      else [Log (LLoadingCheckpoint (path_of (load_path a))),
            LoadCheckpoint (path_of (load_path a))]) @
     [BuildParaphraser (if short_test a then 5 else hidden_size a), Log LBuildingDataset,
      BuildDataset (train_record_file a),
      BuildLoader True (batch_size a * max 1 (int (length (available_gpu_ids env)))),
      BuildDataset (dev_record_file a),
      BuildLoader False (batch_size a * max 1 (int (length (available_gpu_ids env)))),
      LoadIdx2Word (idx2word_file a), Log LTraining]"
  by (simp add: loop_entry_def prepare_training_eq after_loading_def load_bidaf_def Let_def
        emits_eq init_main_def begin_main_def)

lemma prepared_trace:
  "trace (prepare_training (after_loading env a)) = trace (loop_entry env a)"
  by (simp add: loop_entry_def)

lemma entry_classes:
  "filter epoch_start (trace (loop_entry env a)) = []"
  "filter para_event (trace (loop_entry env a)) = []"
  "filter forward_event (trace (loop_entry env a)) = []"
  "filter training_event (trace (loop_entry env a)) = []"
  "filter evaluation_event (trace (loop_entry env a)) = []"
  "filter load_event (trace (loop_entry env a)) =
     (if short_test a then [] else [LoadCheckpoint (path_of (load_path a))])"
  by (simp_all add: loop_entry_trace)

lemma epoch_logs_classes:
  "filter epoch_start (epoch_logs e k) = epoch_logs e k"
  "length (epoch_logs e k) = k"
  "filter para_event (epoch_logs e k) = []"
  "filter forward_event (epoch_logs e k) = []"
  "filter training_event (epoch_logs e k) = []"
  "filter evaluation_event (epoch_logs e k) = []"
  "filter load_event (epoch_logs e k) = []"
  by (simp_all add: epoch_logs_def filter_map comp_def)

lemma batch_events_classes:
  assumes "batch_events d b evs"
  shows "filter epoch_start evs = []"
    and "filter forward_event evs = []"
    and "filter training_event evs = []"
    and "filter evaluation_event evs = []"
    and "filter load_event evs = []"
    and "length (filter para_event evs) \<le> 1"
  using assms by (auto simp add: batch_events_def filter_map comp_def)

lemma run_cases:
  assumes "main env a = Some (out, s)"
  obtains
    (seed) "\<not> (0 \<le> seed a \<and> seed a < 2 ^ 32)"
      "out = Raised (ValueError ''Seed must be between 0 and 2**32 - 1'')"
      "s = begin_main env a"
  | (exit) "0 \<le> seed a" "seed a < 2 ^ 32" "\<not> short_test a" "\<not> truthy (load_path a)"
      "out = Exited 1" "s = emit (Log LNoBiDAF) (init_main env a)"
  | (loader) msg where "0 \<le> seed a" "seed a < 2 ^ 32" "short_test a \<or> truthy (load_path a)"
      "\<not> (0 \<le> num_workers a \<and> 0 < train_len env \<and> 0 < batch_size a)"
      "out = Raised (ValueError msg)" "s = before_train_loader (after_loading env a)"
  | (loop) k evs where "valid_setup a" "short_test a \<or> truthy (load_path a)"
      "0 < train_len env"
      "s = (loop_entry env a)\<lparr>trace := trace (loop_entry env a) @ epoch_logs 0 k @ evs,
                               epoch := int k\<rparr>"
      "\<forall>i<k. int i \<noteq> num_epochs a"
      "evs = [] \<and> out = Returned \<and> int k = num_epochs a \<or>
       0 < k \<and> (\<exists>b\<in>set (train_batches env (int k)). batch_events (available_device env) b evs) \<and>
       (out = Returned \<and> short_test a \<or> (\<exists>e. out = Raised e))"
proof (cases "np_random_seed (seed a)")
  case (Inl e)
  then have "\<not> (0 \<le> seed a \<and> seed a < 2 ^ 32)"
    and "e = ValueError ''Seed must be between 0 and 2**32 - 1''"
    by (auto simp add: np_random_seed_def split: if_splits)
  with assms Inl seed show ?thesis by (simp add: main_unfold)
next
  case seeded: (Inr u)
  then have sd: "0 \<le> seed a" "seed a < 2 ^ 32" by (simp_all add: seed_ok)
  show ?thesis
  proof (cases "\<not> short_test a \<and> \<not> truthy (load_path a)")
    case True
    with assms seeded sd exit show ?thesis by (simp add: main_unfold)
  next
    case passed: False
    show ?thesis
    proof (cases "new_loader (train_len env)
                    (batch_size a * max 1 (int (length (available_gpu_ids env)))) True
                    (num_workers a)")
      case (Inl e)
      then obtain msg where e: "e = ValueError msg"
        using new_loader_fails by blast
      have "\<not> (0 \<le> num_workers a \<and> 0 < train_len env \<and> 0 < batch_size a)"
      proof
        assume "0 \<le> num_workers a \<and> 0 < train_len env \<and> 0 < batch_size a"
        then have "new_loader (train_len env)
                    (batch_size a * max 1 (int (length (available_gpu_ids env)))) True
                    (num_workers a) = Inr ()"
          by (simp add: new_loader_ok scaled_batch_size)
        with Inl show False by simp
      qed
      moreover from assms seeded passed Inl e
      have "out = Raised (ValueError msg)" "s = before_train_loader (after_loading env a)"
        by (auto simp add: main_unfold)
      ultimately show ?thesis using loader sd passed by blast
    next
      case (Inr v)
      then have ok: "0 \<le> num_workers a" "0 < train_len env" "0 < batch_size a"
        by (simp_all add: new_loader_ok scaled_batch_size)
      with sd have valid: "valid_setup a" by (simp add: valid_setup_def)
      from assms seeded passed Inr have "epoch_loop env (loop_entry env a) = Some (out, s)"
        by (auto simp add: main_unfold)
      from epoch_loop_shape[OF this] have "loop_result env (loop_entry env a) (out, s)"
        by (simp add: loop_entry_fields)
      then obtain k evs where
        "s = (loop_entry env a)\<lparr>trace := trace (loop_entry env a) @ epoch_logs 0 k @ evs,
                                 epoch := int k\<rparr>"
        "\<forall>i<k. int i \<noteq> num_epochs a"
        "evs = [] \<and> out = Returned \<and> int k = num_epochs a \<or>
         0 < k \<and> (\<exists>b\<in>set (train_batches env (int k)). batch_events (available_device env) b evs) \<and>
         (out = Returned \<and> short_test a \<or> (\<exists>e. out = Raised e))"
        unfolding loop_result_def by (auto simp add: loop_entry_fields)
      with loop passed valid ok(2) show ?thesis by blast
    qed
  qed
qed

lemma started_bound:
  assumes "\<forall>i<k. int i \<noteq> n" "0 \<le> n"
  shows "k \<le> nat n"
proof (rule ccontr)
  assume "\<not> k \<le> nat n"
  then have "nat n < k" by simp
  with assms(1) have "int (nat n) \<noteq> n" by blast
  with assms(2) show False by simp
qed

lemma exit_trace:
  "trace (emit (Log LNoBiDAF) (init_main env a)) =
     [Log LArgs, Log (LSeed (seed a)), SetSeed (seed a), Log LLoadingEmbeddings,
      LoadEmbeddings (word_emb_file a), Log LBuildingBiDAF, BuildBiDAF (hidden_size a),
      Log LNoBiDAF]"
  by (simp add: emit_eq init_main_fields)

lemma loader_failed_trace:
  "trace (before_train_loader (after_loading env a)) =
     [Log LArgs, Log (LSeed (seed a)), SetSeed (seed a), Log LLoadingEmbeddings,
      LoadEmbeddings (word_emb_file a), Log LBuildingBiDAF, BuildBiDAF (hidden_size a)] @
     (if short_test a then []
      else [Log (LLoadingCheckpoint (path_of (load_path a))),
            LoadCheckpoint (path_of (load_path a))]) @
     [BuildParaphraser (if short_test a then 5 else hidden_size a), Log LBuildingDataset,
      BuildDataset (train_record_file a)]"
  by (simp add: before_train_loader_eq after_loading_def load_bidaf_def Let_def
        emits_eq init_main_def begin_main_def)

lemma loader_failed_classes:
  "filter epoch_start (trace (before_train_loader (after_loading env a))) = []"
  "filter para_event (trace (before_train_loader (after_loading env a))) = []"
  "filter forward_event (trace (before_train_loader (after_loading env a))) = []"
  "filter training_event (trace (before_train_loader (after_loading env a))) = []"
  "filter evaluation_event (trace (before_train_loader (after_loading env a))) = []"
  "filter load_event (trace (before_train_loader (after_loading env a))) =
     (if short_test a then [] else [LoadCheckpoint (path_of (load_path a))])"
  by (simp_all add: loader_failed_trace)

lemma loader_failed_fields:
  "bidaf_model (before_train_loader s) = bidaf_model s"
  "args (before_train_loader s) = args s"
  by (simp_all add: before_train_loader_eq)

lemma epochs_started_run:
  assumes "main env a = Some (out, s)" "0 \<le> num_epochs a"
  shows "epochs_started (trace s) \<le> nat (num_epochs a)"
  using assms(1)
proof (cases rule: run_cases)
  case seed
  then show ?thesis by (simp add: epochs_started_def begin_main_trace)
next
  case exit
  then show ?thesis by (simp add: epochs_started_def exit_trace)
next
  case (loader msg)
  then show ?thesis by (simp add: epochs_started_def loader_failed_classes)
next
  case (loop k evs)
  have "filter epoch_start evs = []"
    using loop(6) by (auto dest: batch_events_classes(1))
  then have "epochs_started (trace s) = k"
    using loop(4) by (simp add: epochs_started_def entry_classes epoch_logs_classes)
  with started_bound[OF loop(5) assms(2)] show ?thesis by simp
qed

section \<open>Properties of the evaluation routine\<close>

lemma ex_eval_batches:
  "eval_batches ex_ops mm dd g ml sq [ex_dev_batch] ([], Map.empty) ww =
     (Inr ([(2, 2)], Map.empty),
      ww\<lparr>trace := trace ww @ [Forward (training mm) (grad_enabled ww) (to dd ex_cw) (to dd ex_qw),
                                Progress 2]\<rparr>)"
  by (simp add: eval_batch_def unpack7_def ex_dev_batch_def ex_ops_def size0_def to_def
        ex_cw_def emit_eq)

lemma ex_ops_fields:
  "open_json ex_ops f = Inr ()"
  "eval_dicts ex_ops g pd v = Inr (map_of [(''F1'', 50), (''EM'', 40), (''AvNA'', 60)])"
  "meter_avg ex_ops xs = 2"
  "open_json ex_failing_ops f = Inr ()"
  by (simp_all add: ex_ops_def ex_failing_ops_def)

lemma ex_module_training: "ex_module\<lparr>training := True\<rparr> = ex_module"
  by (simp add: ex_module_def)

lemma ex_evaluate:
  "evaluate ex_ops ex_module [ex_dev_batch] (CUDA 0) ''data/dev_eval.json'' 15 sq ex_world =
     (Inr (if sq then [(''NLL'', 2), (''F1'', 50), (''EM'', 40), (''AvNA'', 60)]
           else [(''NLL'', 2), (''F1'', 50), (''EM'', 40)], Map.empty),
      ex_module,
      ex_world\<lparr>trace := [Forward False False (to (CUDA 0) ex_cw) (to (CUDA 0) ex_qw),
                           Progress 2]\<rparr>)"
proof -
  have eb: "with_grad False
              (eval_batches ex_ops (ex_module\<lparr>training := False\<rparr>) (CUDA 0) () 15 sq
                 [ex_dev_batch] ([], Map.empty)) ex_world =
            (Inr ([(2, 2)], Map.empty),
             ex_world\<lparr>trace := [Forward False False (to (CUDA 0) ex_cw)
                                    (to (CUDA 0) ex_qw), Progress 2]\<rparr>)"
    unfolding with_grad_def ex_eval_batches by (simp add: ex_world_def)
  show ?thesis
    unfolding evaluate_def
    by (simp add: Let_def ex_ops_fields eb getitem_def OrderedDict_def ex_module_training)
qed

lemma ex_failing_batches:
  "eval_batches ex_failing_ops mm dd g ml sq (ex_dev_batch # bs) ([], Map.empty) ww =
     (Inl (FrameworkError ''CUDA out of memory''),
      ww\<lparr>trace := trace ww @ [Forward (training mm) (grad_enabled ww) (to dd ex_cw) (to dd ex_qw)]\<rparr>)"
  by (simp add: eval_batch_def unpack7_def ex_dev_batch_def ex_failing_ops_def ex_ops_def size0_def to_def
        ex_cw_def emit_eq)

lemma ex_failing_evaluate:
  "evaluate ex_failing_ops ex_module [ex_dev_batch] (CUDA 0) ''data/dev_eval.json'' 15 sq ex_world =
     (Inl (FrameworkError ''CUDA out of memory''),
      ex_module\<lparr>training := False\<rparr>,
      ex_world\<lparr>trace := [Forward False False (to (CUDA 0) ex_cw) (to (CUDA 0) ex_qw)]\<rparr>)"
proof -
  have eb: "with_grad False
              (eval_batches ex_failing_ops (ex_module\<lparr>training := False\<rparr>) (CUDA 0) () 15 sq
                 [ex_dev_batch] ([], Map.empty)) ex_world =
            (Inl (FrameworkError ''CUDA out of memory''),
             ex_world\<lparr>trace := [Forward False False (to (CUDA 0) ex_cw)
                                    (to (CUDA 0) ex_qw)]\<rparr>)"
    unfolding with_grad_def ex_failing_batches by (simp add: ex_world_def)
  show ?thesis
    unfolding evaluate_def
    by (simp add: Let_def ex_ops_fields eb)
qed

lemma evaluate_module:
  assumes "evaluate eops m dl d f ml sq w = (r, m', w')"
  shows "params m' = params m" and "placed m' = placed m"
  using assms
  by (auto simp add: evaluate_def Let_def split: sum.splits prod.splits if_splits)

lemma with_grad_eval_batches:
  assumes "with_grad False (eval_batches eops m d g ml sq dl acc) w = (r, w')"
  shows "\<exists>evs. w' = w\<lparr>trace := trace w @ evs\<rparr> \<and> (\<forall>ev\<in>set evs. eval_event (training m) False ev)"
proof -
  obtain r1 w1 where eb: "eval_batches eops m d g ml sq dl acc (w\<lparr>grad_enabled := False\<rparr>) = (r1, w1)"
    by (cases "eval_batches eops m d g ml sq dl acc (w\<lparr>grad_enabled := False\<rparr>)")
  from eval_batches_shape[OF eb] obtain evs where
    "w1 = w\<lparr>grad_enabled := False\<rparr>\<lparr>trace := trace (w\<lparr>grad_enabled := False\<rparr>) @ evs\<rparr>"
    "\<forall>ev\<in>set evs. eval_event (training m) (grad_enabled (w\<lparr>grad_enabled := False\<rparr>)) ev"
    by blast
  with assms eb show ?thesis
    by (intro exI[of _ evs]) (auto simp add: with_grad_def)
qed

text \<open>
  Claim C4. Whenever \<^verbatim>\<open>evaluate\<close> returns, the keys of the returned ordered mapping are
  NLL, F1, EM in this order, followed by AvNA exactly when \<^verbatim>\<open>use_squad_v2\<close> is true.
\<close>

theorem evaluate_result_keys:
  assumes "evaluate eops m dl d f ml sq w = (Inr (results, pd), m', w')"
  shows "map fst results =
           (if sq then [''NLL'', ''F1'', ''EM'', ''AvNA''] else [''NLL'', ''F1'', ''EM''])"
  using assms
  by (auto simp add: evaluate_def Let_def OrderedDict_def split: sum.splits prod.splits if_splits)

theorem evaluate_result_keys_witness:
  "\<exists>results pd m' w'.
     evaluate ex_ops ex_module [ex_dev_batch] (CUDA 0) ''data/dev_eval.json'' 15 True ex_world
       = (Inr (results, pd), m', w') \<and>
     map fst results = [''NLL'', ''F1'', ''EM'', ''AvNA'']"
proof -
  have run: "evaluate ex_ops ex_module [ex_dev_batch] (CUDA 0) ''data/dev_eval.json'' 15 True ex_world
     = (Inr ([(''NLL'', 2), (''F1'', 50), (''EM'', 40), (''AvNA'', 60)], Map.empty),
      ex_module,
      ex_world\<lparr>trace := [Forward False False (to (CUDA 0) ex_cw) (to (CUDA 0) ex_qw),
                           Progress 2]\<rparr>)"
    using ex_evaluate[of True] by simp
  from evaluate_result_keys[OF run] run show ?thesis by simp
qed

text \<open>
  Claim C5, as amended. Every forward pass of \<^verbatim>\<open>evaluate\<close> runs with the network in
  inference mode and with gradient tracking off, and the gradient mode is afterwards what
  it was before the call. When \<^verbatim>\<open>evaluate\<close> returns, the network is in training mode.
  It is in training mode at the end exactly when the gold file was read and the iteration
  over the loader finished without an exception: an exception raised before or during the
  iteration leaves the network in inference mode.
\<close>

theorem evaluate_modes:
  assumes "evaluate eops m dl d f ml sq w = (r, m', w')"
  shows "(\<exists>evs. w' = w\<lparr>trace := trace w @ evs\<rparr> \<and>
            (\<forall>ev\<in>set evs. \<forall>tr g x y. ev = Forward tr g x y \<longrightarrow> \<not> tr \<and> \<not> g)) \<and>
         ((\<exists>v. r = Inr v) \<longrightarrow> training m') \<and>
         (training m' \<longleftrightarrow>
            (\<exists>g acc w1. open_json eops f = Inr g \<and>
               eval_batches eops (m\<lparr>training := False\<rparr>) d g ml sq dl ([], Map.empty)
                 (w\<lparr>grad_enabled := False\<rparr>) = (Inr acc, w1)))"
proof (cases "open_json eops f")
  case (Inl e)
  with assms have "w' = w" "m' = m\<lparr>training := False\<rparr>" "r = Inl e"
    by (simp_all add: evaluate_def Let_def)
  with Inl show ?thesis by (auto intro: exI[of _ "[]"])
next
  case (Inr g)
  let ?m = "m\<lparr>training := False\<rparr>"
  obtain r1 w1 where eb: "eval_batches eops ?m d g ml sq dl ([], Map.empty) (w\<lparr>grad_enabled := False\<rparr>) = (r1, w1)"
    by (cases "eval_batches eops ?m d g ml sq dl ([], Map.empty) (w\<lparr>grad_enabled := False\<rparr>)")
  then have wg: "with_grad False (eval_batches eops ?m d g ml sq dl ([], Map.empty)) w
           = (r1, w1\<lparr>grad_enabled := grad_enabled w\<rparr>)"
    by (simp add: with_grad_def)
  from with_grad_eval_batches[OF wg] obtain evs where
    w1: "w1\<lparr>grad_enabled := grad_enabled w\<rparr> = w\<lparr>trace := trace w @ evs\<rparr>"
    and evs: "\<forall>ev\<in>set evs. eval_event (training ?m) False ev"
    by blast
  have fw: "\<forall>ev\<in>set evs. \<forall>tr g x y. ev = Forward tr g x y \<longrightarrow> \<not> tr \<and> \<not> g"
    using evs by (auto simp add: eval_event_def)
  have w': "w' = w\<lparr>trace := trace w @ evs\<rparr>"
    using assms Inr wg w1
    by (auto simp add: evaluate_def Let_def split: sum.splits prod.splits if_splits)
  show ?thesis
  proof (cases r1)
    case e: (Inl e)
    with assms Inr wg have "m' = ?m" "r = Inl e"
      by (simp_all add: evaluate_def Let_def)
    with Inr eb e w' fw show ?thesis by auto
  next
    case acc: (Inr acc)
    with assms Inr wg have "m' = m\<lparr>training := True\<rparr>"
      by (auto simp add: evaluate_def Let_def split: sum.splits prod.splits if_splits)
    with Inr eb acc w' fw show ?thesis by auto
  qed
qed

theorem evaluate_modes_witness:
  "\<exists>r m' w'.
     evaluate ex_ops ex_module [ex_dev_batch] (CUDA 0) ''data/dev_eval.json'' 15 True ex_world
       = (r, m', w') \<and>
     (\<exists>v. r = Inr v) \<and> training m' \<and>
     w' = ex_world\<lparr>trace := trace ex_world @
                      [Forward False False (to (CUDA 0) ex_cw) (to (CUDA 0) ex_qw),
                       Progress 2]\<rparr>"
proof -
  have run: "evaluate ex_ops ex_module [ex_dev_batch] (CUDA 0) ''data/dev_eval.json'' 15 True
               ex_world
     = (Inr ([(''NLL'', 2), (''F1'', 50), (''EM'', 40), (''AvNA'', 60)], Map.empty),
        ex_module,
        ex_world\<lparr>trace := [Forward False False (to (CUDA 0) ex_cw) (to (CUDA 0) ex_qw),
                             Progress 2]\<rparr>)"
    using ex_evaluate[of True] by simp
  from evaluate_modes[OF run] have "training ex_module" by simp
  with run show ?thesis by (simp add: ex_world_def)
qed

text \<open>
  The claim C5 as stated fails: when the forward pass raises during the iteration, the
  exception leaves \<^verbatim>\<open>evaluate\<close> and the network, in training mode before the call, is
  in inference mode after it.
\<close>

theorem evaluate_exception_leaves_eval_mode:
  "training ex_module \<and>
   fst (evaluate ex_failing_ops ex_module [ex_dev_batch] (CUDA 0) ''data/dev_eval.json'' 15 True
          ex_world) = Inl (FrameworkError ''CUDA out of memory'') \<and>
   \<not> training (fst (snd (evaluate ex_failing_ops ex_module [ex_dev_batch] (CUDA 0)
                             ''data/dev_eval.json'' 15 True ex_world)))"
  by (simp add: ex_failing_evaluate) (simp add: ex_module_def)

section \<open>Properties of the training driver\<close>

lemma prepared_fields:
  "args (prepare_training s) = args s"
  "bidaf_model (prepare_training s) = bidaf_model s"
  by (simp_all add: prepare_training_eq)

lemma main_first_batch_raises:
  assumes valid: "valid_setup a" and passed: "short_test a \<or> truthy (load_path a)"
    and len: "0 < train_len env" and ne: "num_epochs a \<noteq> 0"
    and bs: "train_batches env 1 = b # bs"
    and b: "length b = 10" "shape (b ! 0) \<noteq> []"
    and pf: "para_forward env (if short_test a then 5 else hidden_size a)
               (to (available_device env) (b ! 7)) (to (available_device env) (b ! 8))
               (to (available_device env) (b ! 6)) = Inl e"
  shows "\<exists>s. main env a = Some (Raised e, s)"
proof -
  let ?e = "loop_entry env a"
  let ?s = "?e\<lparr>grad_enabled := True, trace := trace ?e @ [Log (LStartingEpoch (epoch ?e + 1))],
               epoch := epoch ?e + 1\<rparr>"
  have m: "main env a = epoch_loop env ?e"
    using valid passed len by (rule main_reaches_loop)
  have tb: "train_batch env b ?s =
      (Some (Raised e),
       ?s\<lparr>trace := trace ?s @ [ParaForward (to (device ?s) (b ! 7)) (to (device ?s) (b ! 8))
                                  (to (device ?s) (b ! 6))]\<rparr>)"
    by (rule train_batch_forward_raises[OF b]) (simp add: loop_entry_fields pf)
  have "epoch_loop env ?e = Some (Raised e,
       (?s\<lparr>trace := trace ?s @ [ParaForward (to (device ?s) (b ! 7)) (to (device ?s) (b ! 8))
                                  (to (device ?s) (b ! 6))]\<rparr>)\<lparr>grad_enabled := grad_enabled ?e\<rparr>)"
    by (rule epoch_loop_first[OF _ _ tb]) (simp_all add: loop_entry_fields ne[symmetric] bs)
  with m show ?thesis by simp
qed

lemma main_first_batch_exits:
  assumes valid: "valid_setup a" and passed: "short_test a \<or> truthy (load_path a)"
    and len: "0 < train_len env" and ne: "num_epochs a \<noteq> 0"
    and bs: "train_batches env 1 = b # bs"
  shows "\<exists>out evs. main env a =
            Some (out, (loop_entry env a)
                         \<lparr>trace := trace (loop_entry env a) @ Log (LStartingEpoch 1) # evs,
                          epoch := 1\<rparr>) \<and>
           batch_events (available_device env) b evs"
proof -
  let ?e = "loop_entry env a"
  let ?s = "?e\<lparr>grad_enabled := True, trace := trace ?e @ [Log (LStartingEpoch (epoch ?e + 1))],
               epoch := epoch ?e + 1\<rparr>"
  have m: "main env a = epoch_loop env ?e"
    using valid passed len by (rule main_reaches_loop)
  have "optimizer ?s = None" by (simp add: loop_entry_fields)
  from train_batch_exits[OF this, of env b] obtain out evs where
    tb: "train_batch env b ?s = (Some out, ?s\<lparr>trace := trace ?s @ evs\<rparr>)"
    and ev: "batch_events (device ?s) b evs"
    by blast
  have "epoch_loop env ?e = Some (out, (?s\<lparr>trace := trace ?s @ evs\<rparr>)\<lparr>grad_enabled := grad_enabled ?e\<rparr>)"
    by (rule epoch_loop_first[OF _ _ tb]) (simp_all add: loop_entry_fields ne[symmetric] bs)
  with m ev show ?thesis
    by (intro exI[of _ out] exI[of _ evs]) (simp add: loop_entry_fields loop_entry_grad)
qed

lemma para_not_in_entry: "ParaForward q t c \<notin> set (trace (loop_entry env a))"
  by (simp add: loop_entry_trace)

lemma para_not_in_logs: "ParaForward q t c \<notin> set (epoch_logs e k)"
  by (auto simp add: epoch_logs_def)

lemma loop_entry_counters:
  "step (loop_entry env a) = 0"
  "steps_till_eval (loop_entry env a) = eval_steps a"
  by (simp_all add: loop_entry_def prepare_training_eq after_loading_def load_bidaf_def Let_def
        emits_eq init_main_def begin_main_def)

lemma ex_env_fields:
  "train_len ex_env = 2"
  "train_batches ex_env e = [ex_batch]"
  "available_device ex_env = CUDA 0"
  "available_gpu_ids ex_env = [0]"
  "checkpoint ex_env f = 1"
  "bidaf_init ex_env = 0"
  "para_forward ex_env h q t c = Inr [[3, 0, 7], [0, 0, 0]]"
  by (simp_all add: ex_env_def)

lemma ex_batch_fields:
  "length ex_batch = 10"
  "ex_batch ! 0 = ex_cw" "ex_batch ! 6 = ex_cphr" "ex_batch ! 7 = ex_qphr"
  "ex_batch ! 8 = ex_qtypes"
  "shape ex_cw \<noteq> []"
  by (simp_all add: ex_batch_def ex_cw_def)

lemma ex_env_run:
  assumes "valid_setup a" "short_test a \<or> truthy (load_path a)" "num_epochs a \<noteq> 0"
  shows "main ex_env a =
     Some (if short_test a then Returned else Raised (NameError ''optimizer''),
           (loop_entry ex_env a)
             \<lparr>trace := trace (loop_entry ex_env a) @
                 [Log (LStartingEpoch 1),
                  ParaForward (to (CUDA 0) ex_qphr) (to (CUDA 0) ex_qtypes) (to (CUDA 0) ex_cphr),
                  Print ''what is'', Print ''''],
              epoch := 1\<rparr>)"
proof -
  have "main ex_env a = Some (if short_test a then Returned else Raised (NameError ''optimizer''),
                 (loop_entry ex_env a)
                   \<lparr>trace := trace (loop_entry ex_env a) @
                       Log (LStartingEpoch 1) #
                       ParaForward (to (available_device ex_env) (ex_batch ! 7))
                         (to (available_device ex_env) (ex_batch ! 8))
                         (to (available_device ex_env) (ex_batch ! 6)) # map Print [''what is'', ''''],
                    epoch := 1\<rparr>)"
    by (rule main_first_batch[where bs = "[]" and ps = "[[3, 0, 7], [0, 0, 0]]",
                              OF assms(1) assms(2) _ assms(3) _ _ _ _ ex_decode])
       (simp_all add: ex_env_fields ex_batch_fields)
  then show ?thesis
    by (simp add: ex_env_fields ex_batch_fields)
qed

lemma ex_args_fields:
  "\<not> short_test ex_args" "truthy (load_path ex_args)" "num_epochs ex_args = 30"
  "short_test ex_short_args" "num_epochs ex_short_args = 30"
  "\<not> short_test ex_nopath_args" "\<not> truthy (load_path ex_nopath_args)"
  "\<not> short_test ex_eager_args" "truthy (load_path ex_eager_args)"
  "num_epochs ex_eager_args = 30" "eval_steps ex_eager_args = 1"
  "valid_setup ex_args" "valid_setup ex_short_args" "valid_setup ex_eager_args"
  "seed ex_nopath_args = 224"
  "\<not> short_test ex_badseed_args" "\<not> truthy (load_path ex_badseed_args)"
  "seed ex_badseed_args = - 1"
  "short_test ex_short_badseed_args" "seed ex_short_badseed_args = - 1"
  by (simp_all add: ex_args_def ex_short_args_def ex_nopath_args_def ex_eager_args_def truthy_def
        valid_setup_def ex_badseed_args_def ex_short_badseed_args_def)

lemma ex_entry_trace:
  "trace (loop_entry ex_env ex_args) =
     [Log LArgs, Log (LSeed 224), SetSeed 224, Log LLoadingEmbeddings,
      LoadEmbeddings ''data/word_emb.json'', Log LBuildingBiDAF, BuildBiDAF 100,
      Log (LLoadingCheckpoint ''save/train/bidaf-01/best.pth.tar''),
      LoadCheckpoint ''save/train/bidaf-01/best.pth.tar'',
      BuildParaphraser 100, Log LBuildingDataset, BuildDataset ''data/train.npz'',
      BuildLoader True 64, BuildDataset ''data/dev.npz'', BuildLoader False 64,
      LoadIdx2Word ''data/idx2word.json'', Log LTraining]"
  by (simp add: loop_entry_trace ex_env_fields) (simp add: ex_args_def path_of_def)


lemma ex_train_run:
  "main ex_env ex_args =
     Some (Raised (NameError ''optimizer''),
           (loop_entry ex_env ex_args)
             \<lparr>trace := trace (loop_entry ex_env ex_args) @
                 [Log (LStartingEpoch 1),
                  ParaForward (to (CUDA 0) ex_qphr) (to (CUDA 0) ex_qtypes) (to (CUDA 0) ex_cphr),
                  Print ''what is'', Print ''''],
              epoch := 1\<rparr>)"
  using ex_env_run[of ex_args] by (simp add: ex_args_fields)

lemma ex_short_run:
  "main ex_env ex_short_args =
     Some (Returned,
           (loop_entry ex_env ex_short_args)
             \<lparr>trace := trace (loop_entry ex_env ex_short_args) @
                 [Log (LStartingEpoch 1),
                  ParaForward (to (CUDA 0) ex_qphr) (to (CUDA 0) ex_qtypes) (to (CUDA 0) ex_cphr),
                  Print ''what is'', Print ''''],
              epoch := 1\<rparr>)"
  using ex_env_run[of ex_short_args] by (simp add: ex_args_fields)

lemma ex_eager_run:
  "main ex_env ex_eager_args =
     Some (Raised (NameError ''optimizer''),
           (loop_entry ex_env ex_eager_args)
             \<lparr>trace := trace (loop_entry ex_env ex_eager_args) @
                 [Log (LStartingEpoch 1),
                  ParaForward (to (CUDA 0) ex_qphr) (to (CUDA 0) ex_qtypes) (to (CUDA 0) ex_cphr),
                  Print ''what is'', Print ''''],
              epoch := 1\<rparr>)"
  using ex_env_run[of ex_eager_args] by (simp add: ex_args_fields)

section \<open>Propagation of exceptions\<close>

lemma or_raise_simps:
  "or_raise (Inl e) k = Inl e" "or_raise (Inr x) k = k x"
  by (simp_all add: or_raise_def)

lemma or_raised_simps:
  "or_raised (Inl e) k2 = Some (Raised e)" "or_raised (Inr x) k2 = k2 x"
  by (simp_all add: or_raised_def)

lemma eval_batch_result:
  "fst (eval_batch eops m d g ml sq b acc w) =
     or_raise (unpack7 b) (\<lambda>(cw, cc, qw, qc, y1, y2, ids).
     or_raise (size0 (to d cw)) (\<lambda>n.
     or_raise (forward eops m (to d cw) (to d qw)) (\<lambda>(p1, p2).
     or_raise (nll_loss eops p1 (to d y1)) (\<lambda>l1.
     or_raise (nll_loss eops p2 (to d y2)) (\<lambda>l2.
     or_raise (discretize eops (texp eops p1) (texp eops p2) ml sq) (\<lambda>(st, en).
     or_raise (convert_tokens eops g (elems ids) (elems st) (elems en) sq) (\<lambda>(preds, u).
     Inr (fst acc @ [(l1 + l2, n)], snd acc ++ preds))))))))"
  by (simp add: eval_batch_def or_raise_def Let_def split: sum.splits prod.splits)

lemma eval_batches_result:
  "fst (eval_batches eops m d g ml sq [] acc w) = Inr acc"
  "fst (eval_batches eops m d g ml sq (b # bs) acc w) =
     or_raise (fst (eval_batch eops m d g ml sq b acc w)) (\<lambda>acc'.
       fst (eval_batches eops m d g ml sq bs acc' (snd (eval_batch eops m d g ml sq b acc w))))"
  by (simp_all add: or_raise_def split: sum.splits prod.splits)

lemma eval_batches_result_indep:
  "fst (eval_batches eops m d g ml sq bs acc w) = fst (eval_batches eops m d g ml sq bs acc w')"
proof (induction bs arbitrary: acc w w')
  case Nil
  show ?case by simp
next
  case (Cons b bs)
  have b: "fst (eval_batch eops m d g ml sq b acc w) = fst (eval_batch eops m d g ml sq b acc w')"
    by (simp add: eval_batch_result)
  show ?case
    unfolding eval_batches_result(2) b
    by (cases "fst (eval_batch eops m d g ml sq b acc w')") (simp_all add: or_raise_simps Cons.IH[of _ "snd (eval_batch eops m d g ml sq b acc w)" "snd (eval_batch eops m d g ml sq b acc w')"])
qed

lemma evaluate_result:
  "fst (evaluate eops m dl d f ml sq w) =
     or_raise (open_json eops f) (\<lambda>g.
     or_raise (fst (eval_batches eops (m\<lparr>training := False\<rparr>) d g ml sq dl ([], Map.empty)
                      (w\<lparr>grad_enabled := False\<rparr>))) (\<lambda>(nll_meter, pred_dict).
     or_raise (eval_dicts eops g pred_dict sq) (\<lambda>results.
     or_raise (getitem results ''F1'') (\<lambda>f1.
     or_raise (getitem results ''EM'') (\<lambda>em.
     if sq
     then or_raise (getitem results ''AvNA'') (\<lambda>avna.
            Inr (OrderedDict [(''NLL'', meter_avg eops nll_meter), (''F1'', f1), (''EM'', em),
                              (''AvNA'', avna)], pred_dict))
     else Inr (OrderedDict [(''NLL'', meter_avg eops nll_meter), (''F1'', f1), (''EM'', em)],
               pred_dict))))))"
proof (cases "open_json eops f")
  case (Inl e)
  then show ?thesis by (simp add: evaluate_def or_raise_def Let_def)
next
  case (Inr g)
  obtain r1 w1 where eb:
    "eval_batches eops (m\<lparr>training := False\<rparr>) d g ml sq dl ([], Map.empty)
       (w\<lparr>grad_enabled := False\<rparr>) = (r1, w1)"
    by (cases "eval_batches eops (m\<lparr>training := False\<rparr>) d g ml sq dl ([], Map.empty)
                 (w\<lparr>grad_enabled := False\<rparr>)")
  show ?thesis
  proof (cases r1)
    case e: (Inl e)
    with Inr eb show ?thesis
      by (simp add: evaluate_def or_raise_def with_grad_def Let_def)
  next
    case acc: (Inr acc)
    obtain mt pd where a: "acc = (mt, pd)" by (cases acc)
    from Inr eb acc a show ?thesis
      by (simp add: evaluate_def or_raise_def with_grad_def Let_def split: sum.splits)
  qed
qed

lemma evaluate_result_indep:
  "fst (evaluate eops m dl d f ml sq w) = fst (evaluate eops m dl d f ml sq w')"
  unfolding evaluate_result
  using eval_batches_result_indep[of eops "m\<lparr>training := False\<rparr>" d _ ml sq dl "([], Map.empty)"
           "w\<lparr>grad_enabled := False\<rparr>" "w'\<lparr>grad_enabled := False\<rparr>"]
  by simp

lemma evaluate_world:
  assumes "evaluate eops m dl d f ml sq w = (r, m', w')"
  shows "\<exists>evs. w' = w\<lparr>trace := trace w @ evs\<rparr>"
proof (cases "open_json eops f")
  case (Inl e)
  with assms have "w' = w" by (simp add: evaluate_def Let_def)
  then show ?thesis by (intro exI[of _ "[]"]) simp
next
  case (Inr g)
  obtain r1 w1 where wg:
    "with_grad False (eval_batches eops (m\<lparr>training := False\<rparr>) d g ml sq dl ([], Map.empty)) w
       = (r1, w1)"
    by (cases "with_grad False
                 (eval_batches eops (m\<lparr>training := False\<rparr>) d g ml sq dl ([], Map.empty)) w")
  from with_grad_eval_batches[OF wg] obtain evs where "w1 = w\<lparr>trace := trace w @ evs\<rparr>"
    by blast
  moreover have "w' = w1"
    using assms Inr wg
    by (auto simp add: evaluate_def Let_def split: sum.splits prod.splits if_splits)
  ultimately show ?thesis by blast
qed

lemma evaluate_and_save_result:
  "fst (evaluate_and_save env m s) =
     or_raised (fst (evaluate (ops env) m (dev_batches env) (device s) (dev_eval_file (args s))
                       (max_ans_len (args s)) (use_squad_v2 (args s)) s))
       (\<lambda>(results, pred_dict).
     or_raised (read_name ''saver'' (saver s)) (\<lambda>u.
     or_raised (getitem (map_of results) (metric_name (args s))) (\<lambda>v. None)))"
proof -
  let ?s2 = "emits [Log (LEvaluating (step s)), EmaAssign]
               (s\<lparr>steps_till_eval := eval_steps (args s)\<rparr>)"
  obtain r m' s3 where ev:
    "evaluate (ops env) m (dev_batches env) (device s) (dev_eval_file (args s))
       (max_ans_len (args s)) (use_squad_v2 (args s)) ?s2 = (r, m', s3)"
    by (cases "evaluate (ops env) m (dev_batches env) (device s) (dev_eval_file (args s))
       (max_ans_len (args s)) (use_squad_v2 (args s)) ?s2") auto
  from evaluate_world[OF ev] obtain evs where s3: "s3 = ?s2\<lparr>trace := trace ?s2 @ evs\<rparr>"
    by blast
  have r: "fst (evaluate (ops env) m (dev_batches env) (device s) (dev_eval_file (args s))
                       (max_ans_len (args s)) (use_squad_v2 (args s)) s) = r"
    using ev evaluate_result_indep[of "ops env" m "dev_batches env" "device s"
             "dev_eval_file (args s)" "max_ans_len (args s)" "use_squad_v2 (args s)" s ?s2]
    by simp
  have sv: "saver s3 = saver s" "args s3 = args s"
    by (simp_all add: s3 emits_eq)
  show ?thesis
    unfolding r
    using ev sv
    by (cases r)
       (auto simp add: evaluate_and_save_def Let_def emits_eq or_raised_def read_name_def
          split: option.splits sum.splits)
qed

lemma evaluate_and_save_result_cong:
  assumes "args s' = args s" "device s' = device s" "saver s' = saver s"
  shows "fst (evaluate_and_save env m s') = fst (evaluate_and_save env m s)"
  unfolding evaluate_and_save_result assms
  using evaluate_result_indep[of "ops env" m "dev_batches env" "device s"
             "dev_eval_file (args s)" "max_ans_len (args s)" "use_squad_v2 (args s)" s' s]
  by simp

lemma train_step_result:
  "fst (train_step env cw qw y1 y2 n s) =
     or_raised (read_name ''optimizer'' (optimizer s)) (\<lambda>u.
     or_raised (read_name ''model'' (model s)) (\<lambda>m.
     or_raised (forward (ops env) m cw qw) (\<lambda>(p1, p2).
     or_raised (nll_loss (ops env) p1 (to (device s) y1)) (\<lambda>l1.
     or_raised (nll_loss (ops env) p2 (to (device s) y2)) (\<lambda>l2.
     or_raised (read_name ''scheduler'' (scheduler s)) (\<lambda>u.
     or_raised (floordiv (step s) (int n)) (\<lambda>q.
     or_raised (read_name ''ema'' (ema s)) (\<lambda>u.
     if steps_till_eval s - int n \<le> 0 then fst (evaluate_and_save env m s) else None))))))))"
  by (auto simp add: train_step_def or_raised_def read_name_def emit_eq emits_eq Let_def
        intro: evaluate_and_save_result_cong
        split: option.splits sum.splits prod.splits)

lemma lookup_words_result:
  "lookup_words d [] = Inr []"
  "lookup_words d (i # r) =
     or_raise (getitem d (py_str i)) (\<lambda>x. or_raise (lookup_words d r) (\<lambda>xs. Inr (x # xs)))"
  by (simp_all add: or_raise_def split: sum.splits)

lemma decode_result:
  "decode d p =
     (if length (filter (\<lambda>x. x \<noteq> 0) p) = 1
      then Inl (TypeError ''iteration over a 0-d tensor'')
      else or_raise (lookup_words d (filter (\<lambda>x. x \<noteq> 0) p)) (\<lambda>ws. Inr (join '' '' ws)))"
  by (simp add: decode_def or_raise_def Let_def split: sum.splits)

lemma print_paraphrases_result:
  "fst (print_paraphrases d [] w) = None"
  "fst (print_paraphrases d (p # ps) w) =
     (case decode d p of
        Inl e \<Rightarrow> Some e
      | Inr x \<Rightarrow> fst (print_paraphrases d ps (emit (Print x) w)))"
  by (simp_all split: sum.splits)

lemma train_batch_result:
  "fst (train_batch env b s) =
     or_raised (unpack10 b) (\<lambda>(cw, cc, qw, qc, y1, y2, cphr, qphr, qty, ids).
     or_raised (size0 (to (device s) cw)) (\<lambda>n.
     or_raised (para_forward env (hidden_size (args s)) (to (device s) qphr) (to (device s) qty)
                  (to (device s) cphr)) (\<lambda>ps.
     (let r = print_paraphrases (idx2word env) ps
                (emit (ParaForward (to (device s) qphr) (to (device s) qty)
                         (to (device s) cphr)) s)
      in (case fst r of
            Some e \<Rightarrow> Some (Raised e)
          | None \<Rightarrow>
             (if short_test (args s) then Some Returned
              else fst (train_step env (to (device s) cw) (to (device s) qw) y1 y2 n
                          (snd r))))))))"
proof (cases "unpack10 b")
  case (Inl e)
  then show ?thesis by (simp add: train_batch_def or_raised_def)
next
  case (Inr tup)
  obtain cw cc qw qc y1 y2 cphr qphr qty ids where
    tup: "tup = (cw, cc, qw, qc, y1, y2, cphr, qphr, qty, ids)"
    by (cases tup) auto
  let ?s1 = "emit (ParaForward (to (device s) qphr) (to (device s) qty) (to (device s) cphr)) s"
  show ?thesis
  proof (cases "size0 (to (device s) cw)")
    case (Inl e)
    with Inr tup show ?thesis by (simp add: train_batch_def or_raised_def Let_def)
  next
    case sz: (Inr n)
    show ?thesis
    proof (cases "para_forward env (hidden_size (args s)) (to (device s) qphr)
                    (to (device s) qty) (to (device s) cphr)")
      case (Inl e)
      with Inr tup sz show ?thesis
        by (simp add: train_batch_def or_raised_def Let_def emit_eq)
    next
      case pf: (Inr ps)
      obtain r xs where pr: "print_paraphrases (idx2word env) ps ?s1
          = (r, ?s1\<lparr>trace := trace ?s1 @ map Print xs\<rparr>)"
        using print_paraphrases_shape by blast
      have "args (?s1\<lparr>trace := trace ?s1 @ map Print xs\<rparr>) = args s"
        by (simp add: emit_eq)
      with Inr tup sz pf pr show ?thesis
        by (cases r) (simp_all add: train_batch_def or_raised_def Let_def emit_eq)
    qed
  qed
qed

lemma train_pass_result:
  "fst (train_pass env [] s) = None"
  "fst (train_pass env (b # bs) s) =
     (case fst (train_batch env b s) of
        Some out \<Rightarrow> Some out
      | None \<Rightarrow> fst (train_pass env bs (snd (train_batch env b s))))"
  by (simp_all split: prod.splits option.splits)

lemma with_grad_result:
  "fst (with_grad g body w) = fst (body (w\<lparr>grad_enabled := g\<rparr>))"
  by (simp add: with_grad_def Let_def split: prod.splits)

lemma epoch_loop_result:
  "epoch_loop env s =
     (if epoch s = num_epochs (args s) then Some (Returned, s)
      else (let r = with_grad True (train_pass env (train_batches env (epoch s + 1)))
                      (emit (Log (LStartingEpoch (epoch s + 1))) (s\<lparr>epoch := epoch s + 1\<rparr>))
            in (case fst r of
                  Some out \<Rightarrow> Some (out, snd r)
                | None \<Rightarrow> epoch_loop env (snd r))))"
  by (subst epoch_loop.simps)
     (simp add: Let_def emit_eq split: prod.splits option.splits)

lemma main_result:
  "map_option fst (main env a) =
     or_raised (np_random_seed (seed a)) (\<lambda>u.
     if \<not> short_test a \<and> \<not> truthy (load_path a) then Some (Exited 1)
     else or_raised (new_loader (train_len env)
                       (batch_size a * max 1 (int (length (available_gpu_ids env)))) True
                       (num_workers a)) (\<lambda>u.
          or_raised (new_loader (dev_len env)
                       (batch_size a * max 1 (int (length (available_gpu_ids env)))) False
                       (num_workers a)) (\<lambda>u.
          or_raised (floordiv 0 (int (train_len env))) (\<lambda>e0.
          map_option fst
            (epoch_loop env ((prepare_training (after_loading env a))\<lparr>epoch := e0\<rparr>))))))"
proof (cases "np_random_seed (seed a)")
  case (Inl e)
  then show ?thesis by (simp add: main_def or_raised_def)
next
  case seeded: (Inr u)
  show ?thesis
  proof (cases "\<not> short_test a \<and> \<not> truthy (load_path a)")
    case True
    with seeded show ?thesis by (simp add: main_def Let_def init_main_fields or_raised_def)
  next
    case False
    then have m: "main env a = train env (after_loading env a)"
      using seeded by (auto simp add: main_def after_loading_def Let_def init_main_fields)
    have "step (prepare_training (after_loading env a)) = 0"
      by (simp add: prepare_training_eq)
    then show ?thesis
      using seeded False
      unfolding m
      by (auto simp add: train_def after_loading_args Let_def or_raised_def
            split: sum.splits)
  qed
qed




section \<open>Further example runs\<close>

lemma main_bad_seed:
  assumes "\<not> (0 \<le> seed a \<and> seed a < 2 ^ 32)"
  shows "main env a =
           Some (Raised (ValueError ''Seed must be between 0 and 2**32 - 1''), begin_main env a)"
  using assms by (auto simp add: main_def np_random_seed_def)

lemma ex_empty_fields:
  "train_len ex_empty_env = 0" "available_gpu_ids ex_empty_env = [0]"
  by (simp_all add: ex_empty_env_def ex_env_def)






section \<open>Statements about the training driver\<close>

text \<open>
  Claim C1, as amended. When \<^verbatim>\<open>load_path\<close> is empty, \<^verbatim>\<open>short_test\<close> is false and the
  seeding of line 42 takes the seed, \<^verbatim>\<open>main\<close> logs the message and ends the process with
  status 1; up to then it has only logged, seeded, loaded the embeddings and built the
  BiDAF network, so neither the Paraphraser nor a dataset is built and no epoch starts.
  A run that ends with an exit status ends with status 1 and in this situation only.
  Nothing else handles an error: \<^verbatim>\<open>main\<close>, the epoch loop, the pass over the loader, the
  body of a batch, the printing and decoding of the paraphrases, the training step, the
  evaluation with its checkpoint, \<^verbatim>\<open>evaluate\<close> and its loop each give the result of their
  steps in sequence, and the first step that raises ends them with the exception it
  raised.
\<close>

theorem exit_without_checkpoint:
  "(\<not> short_test a \<and> \<not> truthy (load_path a) \<and> 0 \<le> seed a \<and> seed a < 2 ^ 32 \<longrightarrow>
      (\<exists>s. main env a = Some (Exited 1, s) \<and>
           trace s = [Log LArgs, Log (LSeed (seed a)), SetSeed (seed a), Log LLoadingEmbeddings,
                      LoadEmbeddings (word_emb_file a), Log LBuildingBiDAF,
                      BuildBiDAF (hidden_size a), Log LNoBiDAF])) \<and>
   (\<forall>c s. main env a = Some (Exited c, s) \<longrightarrow>
      c = 1 \<and> \<not> short_test a \<and> \<not> truthy (load_path a)) \<and>
   map_option fst (main env a) =
     or_raised (np_random_seed (seed a)) (\<lambda>u.
     if \<not> short_test a \<and> \<not> truthy (load_path a) then Some (Exited 1)
     else or_raised (new_loader (train_len env)
                       (batch_size a * max 1 (int (length (available_gpu_ids env)))) True
                       (num_workers a)) (\<lambda>u.
          or_raised (new_loader (dev_len env)
                       (batch_size a * max 1 (int (length (available_gpu_ids env)))) False
                       (num_workers a)) (\<lambda>u.
          or_raised (floordiv 0 (int (train_len env))) (\<lambda>e0.
          map_option fst
            (epoch_loop env ((prepare_training (after_loading env a))\<lparr>epoch := e0\<rparr>)))))) \<and>
   epoch_loop env s =
     (if epoch s = num_epochs (args s) then Some (Returned, s)
      else (let r = with_grad True (train_pass env (train_batches env (epoch s + 1)))
                      (emit (Log (LStartingEpoch (epoch s + 1))) (s\<lparr>epoch := epoch s + 1\<rparr>))
            in (case fst r of
                  Some out \<Rightarrow> Some (out, snd r)
                | None \<Rightarrow> epoch_loop env (snd r)))) \<and>
   fst (with_grad gr body w) = fst (body (w\<lparr>grad_enabled := gr\<rparr>)) \<and>
   fst (train_pass env [] s) = None \<and>
   fst (train_pass env (b # bs) s) =
     (case fst (train_batch env b s) of
        Some out \<Rightarrow> Some out
      | None \<Rightarrow> fst (train_pass env bs (snd (train_batch env b s)))) \<and>
   fst (train_batch env b s) =
     or_raised (unpack10 b) (\<lambda>(cw, cc, qw, qc, y1, y2, cphr, qphr, qty, ids).
     or_raised (size0 (to (device s) cw)) (\<lambda>n.
     or_raised (para_forward env (hidden_size (args s)) (to (device s) qphr) (to (device s) qty)
                  (to (device s) cphr)) (\<lambda>ps.
     (let r = print_paraphrases (idx2word env) ps
                (emit (ParaForward (to (device s) qphr) (to (device s) qty)
                         (to (device s) cphr)) s)
      in (case fst r of
            Some e \<Rightarrow> Some (Raised e)
          | None \<Rightarrow>
             (if short_test (args s) then Some Returned
              else fst (train_step env (to (device s) cw) (to (device s) qw) y1 y2 n
                          (snd r)))))))) \<and>
   fst (print_paraphrases d [] w) = None \<and>
   fst (print_paraphrases d (p # ps) w) =
     (case decode d p of
        Inl e \<Rightarrow> Some e
      | Inr x \<Rightarrow> fst (print_paraphrases d ps (emit (Print x) w))) \<and>
   decode d p =
     (if length (filter (\<lambda>x. x \<noteq> 0) p) = 1
      then Inl (TypeError ''iteration over a 0-d tensor'')
      else or_raise (lookup_words d (filter (\<lambda>x. x \<noteq> 0) p)) (\<lambda>ws. Inr (join '' '' ws))) \<and>
   lookup_words d [] = Inr [] \<and>
   lookup_words d (i # r) =
     or_raise (getitem d (py_str i)) (\<lambda>x. or_raise (lookup_words d r) (\<lambda>xs. Inr (x # xs))) \<and>
   fst (train_step env cw qw y1 y2 n s) =
     or_raised (read_name ''optimizer'' (optimizer s)) (\<lambda>u.
     or_raised (read_name ''model'' (model s)) (\<lambda>m.
     or_raised (forward (ops env) m cw qw) (\<lambda>(p1, p2).
     or_raised (nll_loss (ops env) p1 (to (device s) y1)) (\<lambda>l1.
     or_raised (nll_loss (ops env) p2 (to (device s) y2)) (\<lambda>l2.
     or_raised (read_name ''scheduler'' (scheduler s)) (\<lambda>u.
     or_raised (floordiv (step s) (int n)) (\<lambda>q.
     or_raised (read_name ''ema'' (ema s)) (\<lambda>u.
     if steps_till_eval s - int n \<le> 0 then fst (evaluate_and_save env m s) else None)))))))) \<and>
   fst (evaluate_and_save env m s) =
     or_raised (fst (evaluate (ops env) m (dev_batches env) (device s) (dev_eval_file (args s))
                       (max_ans_len (args s)) (use_squad_v2 (args s)) s))
       (\<lambda>(results, pred_dict).
     or_raised (read_name ''saver'' (saver s)) (\<lambda>u.
     or_raised (getitem (map_of results) (metric_name (args s))) (\<lambda>v. None))) \<and>
   fst (evaluate eops m dl dv f ml sq w) =
     or_raise (open_json eops f) (\<lambda>g.
     or_raise (fst (eval_batches eops (m\<lparr>training := False\<rparr>) dv g ml sq dl ([], Map.empty)
                      (w\<lparr>grad_enabled := False\<rparr>))) (\<lambda>(nll_meter, pred_dict).
     or_raise (eval_dicts eops g pred_dict sq) (\<lambda>results.
     or_raise (getitem results ''F1'') (\<lambda>f1.
     or_raise (getitem results ''EM'') (\<lambda>em.
     if sq
     then or_raise (getitem results ''AvNA'') (\<lambda>avna.
            Inr (OrderedDict [(''NLL'', meter_avg eops nll_meter), (''F1'', f1), (''EM'', em),
                              (''AvNA'', avna)], pred_dict))
     else Inr (OrderedDict [(''NLL'', meter_avg eops nll_meter), (''F1'', f1), (''EM'', em)],
               pred_dict)))))) \<and>
   fst (eval_batches eops m dv g ml sq [] acc w) = Inr acc \<and>
   fst (eval_batches eops m dv g ml sq (b # bs) acc w) =
     or_raise (fst (eval_batch eops m dv g ml sq b acc w)) (\<lambda>acc'.
       fst (eval_batches eops m dv g ml sq bs acc'
              (snd (eval_batch eops m dv g ml sq b acc w)))) \<and>
   fst (eval_batch eops m dv g ml sq b acc w) =
     or_raise (unpack7 b) (\<lambda>(cw, cc, qw, qc, y1, y2, ids).
     or_raise (size0 (to dv cw)) (\<lambda>n.
     or_raise (forward eops m (to dv cw) (to dv qw)) (\<lambda>(p1, p2).
     or_raise (nll_loss eops p1 (to dv y1)) (\<lambda>l1.
     or_raise (nll_loss eops p2 (to dv y2)) (\<lambda>l2.
     or_raise (discretize eops (texp eops p1) (texp eops p2) ml sq) (\<lambda>(st, en).
     or_raise (convert_tokens eops g (elems ids) (elems st) (elems en) sq) (\<lambda>(preds, u).
     Inr (fst acc @ [(l1 + l2, n)], snd acc ++ preds))))))))"
proof -
  have p1: "\<not> short_test a \<and> \<not> truthy (load_path a) \<and> 0 \<le> seed a \<and> seed a < 2 ^ 32 \<longrightarrow>
      (\<exists>s. main env a = Some (Exited 1, s) \<and>
           trace s = [Log LArgs, Log (LSeed (seed a)), SetSeed (seed a), Log LLoadingEmbeddings,
                      LoadEmbeddings (word_emb_file a), Log LBuildingBiDAF,
                      BuildBiDAF (hidden_size a), Log LNoBiDAF])"
    by (simp add: main_unfold exit_trace np_random_seed_def)
  have p2: "\<forall>c s. main env a = Some (Exited c, s) \<longrightarrow>
      c = 1 \<and> \<not> short_test a \<and> \<not> truthy (load_path a)"
  proof (intro allI impI)
    fix c s assume "main env a = Some (Exited c, s)"
    then show "c = 1 \<and> \<not> short_test a \<and> \<not> truthy (load_path a)"
      by (cases rule: run_cases) auto
  qed
  show ?thesis
    by (intro conjI p1 p2 main_result epoch_loop_result with_grad_result train_pass_result
          train_batch_result print_paraphrases_result decode_result lookup_words_result
          train_step_result evaluate_and_save_result evaluate_result eval_batches_result
          eval_batch_result)
qed

theorem exit_without_checkpoint_witness:
  "\<not> short_test ex_nopath_args \<and> \<not> truthy (load_path ex_nopath_args) \<and>
   0 \<le> seed ex_nopath_args \<and> seed ex_nopath_args < 2 ^ 32 \<and>
   (\<exists>s. main ex_env ex_nopath_args = Some (Exited 1, s) \<and>
        trace s = [Log LArgs, Log (LSeed 224), SetSeed 224, Log LLoadingEmbeddings,
                   LoadEmbeddings ''data/word_emb.json'', Log LBuildingBiDAF, BuildBiDAF 100,
                   Log LNoBiDAF] \<and>
        (\<forall>c s'. main ex_env ex_nopath_args = Some (Exited c, s') \<longrightarrow> c = 1))"
proof -
  have h: "\<not> short_test ex_nopath_args \<and> \<not> truthy (load_path ex_nopath_args) \<and>
           0 \<le> seed ex_nopath_args \<and> seed ex_nopath_args < 2 ^ 32"
    by (simp add: ex_args_fields)
  from exit_without_checkpoint[where a = ex_nopath_args and env = ex_env, THEN conjunct1] h
  have "\<exists>s. main ex_env ex_nopath_args = Some (Exited 1, s) \<and>
           trace s = [Log LArgs, Log (LSeed (seed ex_nopath_args)), SetSeed (seed ex_nopath_args),
                      Log LLoadingEmbeddings, LoadEmbeddings (word_emb_file ex_nopath_args),
                      Log LBuildingBiDAF, BuildBiDAF (hidden_size ex_nopath_args), Log LNoBiDAF]"
    by blast
  then have 1: "\<exists>s. main ex_env ex_nopath_args = Some (Exited 1, s) \<and>
        trace s = [Log LArgs, Log (LSeed 224), SetSeed 224, Log LLoadingEmbeddings,
                   LoadEmbeddings ''data/word_emb.json'', Log LBuildingBiDAF, BuildBiDAF 100,
                   Log LNoBiDAF]"
    by (simp add: ex_nopath_args_def ex_args_def)
  from exit_without_checkpoint[where a = ex_nopath_args and env = ex_env,
      THEN conjunct2, THEN conjunct1]
  have 2: "\<forall>c s'. main ex_env ex_nopath_args = Some (Exited c, s') \<longrightarrow> c = 1"
    by blast
  from h 1 2 show ?thesis by blast
qed

text \<open>
  The claim C1 as stated fails: with \<^verbatim>\<open>load_path\<close> empty, \<^verbatim>\<open>short_test\<close> false and the
  seed -1, \<^verbatim>\<open>np.random.seed\<close> raises \<^verbatim>\<open>ValueError\<close> at line 42. The run ends with this
  exception after the two log entries of lines 36 and 40: the message of line 60 is not
  logged and the process does not end with status 1.
\<close>

theorem bad_seed_ends_before_exit:
  "\<not> short_test ex_badseed_args \<and> \<not> truthy (load_path ex_badseed_args) \<and>
   main ex_env ex_badseed_args \<noteq> None \<and>
   fst (the (main ex_env ex_badseed_args))
     = Raised (ValueError ''Seed must be between 0 and 2**32 - 1'') \<and>
   trace (snd (the (main ex_env ex_badseed_args))) = [Log LArgs, Log (LSeed (- 1))]"
proof -
  have "\<not> (0 \<le> seed ex_badseed_args \<and> seed ex_badseed_args < 2 ^ 32)"
    by (simp add: ex_args_fields)
  from main_bad_seed[OF this, of ex_env] show ?thesis
    by (simp add: ex_args_fields begin_main_trace)
qed

text \<open>
  Claim C2 fails on the code. Outside short-test mode the first batch gets as far as the
  printing of the paraphrases; then \<^verbatim>\<open>optimizer.zero_grad()\<close> (line 149) reads a name
  that has no binding, since lines 95 to 105 are commented out. The run below ends with
  \<^verbatim>\<open>NameError\<close> before any loss, backward pass, clipping, optimizer, scheduler or
  moving-average step, and with the step counter still 0.
\<close>

theorem training_step_unbound_optimizer:
  "\<exists>s. main ex_env ex_args = Some (Raised (NameError ''optimizer''), s) \<and>
       trace s =
         [Log LArgs, Log (LSeed 224), SetSeed 224, Log LLoadingEmbeddings,
          LoadEmbeddings ''data/word_emb.json'', Log LBuildingBiDAF, BuildBiDAF 100,
          Log (LLoadingCheckpoint ''save/train/bidaf-01/best.pth.tar''),
          LoadCheckpoint ''save/train/bidaf-01/best.pth.tar'',
          BuildParaphraser 100, Log LBuildingDataset, BuildDataset ''data/train.npz'',
          BuildLoader True 64, BuildDataset ''data/dev.npz'', BuildLoader False 64,
          LoadIdx2Word ''data/idx2word.json'', Log LTraining, Log (LStartingEpoch 1),
          ParaForward (to (CUDA 0) ex_qphr) (to (CUDA 0) ex_qtypes) (to (CUDA 0) ex_cphr),
          Print ''what is'', Print ''''] \<and>
       filter training_event (trace s) = [] \<and> step s = 0"
  by (simp add: ex_train_run ex_entry_trace loop_entry_counters)

text \<open>
  Claim C3, as amended. For a non-negative \<^verbatim>\<open>num_epochs\<close> the run ends and has started
  at most \<^verbatim>\<open>num_epochs\<close> iterations of the epoch loop. In short-test mode, when the
  seeding and the loader constructors take their arguments, with a non-empty training
  set whose first pass yields a batch and \<^verbatim>\<open>num_epochs\<close> other than 0, the run ends
  having started exactly one iteration: \<^verbatim>\<open>main\<close> returns at the first batch. When the
  seeding or a loader constructor refuses its argument, the run ends before the loop and
  no iteration starts.
\<close>

theorem epoch_loop_iterations:
  "(0 \<le> num_epochs a \<longrightarrow>
      (\<exists>out s. main env a = Some (out, s) \<and> epochs_started (trace s) \<le> nat (num_epochs a))) \<and>
   (valid_setup a \<and> short_test a \<and> 0 < train_len env \<and> num_epochs a \<noteq> 0 \<and>
    train_batches env 1 \<noteq> [] \<longrightarrow>
      (\<exists>out s. main env a = Some (out, s) \<and> epochs_started (trace s) = 1)) \<and>
   (\<not> valid_setup a \<longrightarrow>
      (\<exists>out s. main env a = Some (out, s) \<and> epochs_started (trace s) = 0))"
proof (intro conjI impI)
  assume nn: "0 \<le> num_epochs a"
  have "\<exists>y. main env a = Some y"
  proof (cases "valid_setup a \<and> (short_test a \<or> truthy (load_path a)) \<and> 0 < train_len env")
    case True
    then have "main env a = epoch_loop env (loop_entry env a)"
      by (simp add: main_reaches_loop)
    moreover have "\<exists>y. epoch_loop env (loop_entry env a) = Some y"
      by (rule epoch_loop_terminates) (simp_all add: loop_entry_fields nn)
    ultimately show ?thesis by simp
  next
    case False
    then show ?thesis
      by (auto simp add: main_unfold valid_setup_def new_loader_ok scaled_batch_size seed_ok
            split: sum.splits)
  qed
  then obtain out s where run: "main env a = Some (out, s)" by (cases, auto)
  from epochs_started_run[OF run nn] run
  show "\<exists>out s. main env a = Some (out, s) \<and> epochs_started (trace s) \<le> nat (num_epochs a)"
    by blast
next
  assume h: "valid_setup a \<and> short_test a \<and> 0 < train_len env \<and> num_epochs a \<noteq> 0 \<and>
    train_batches env 1 \<noteq> []"
  then obtain b bs where bs: "train_batches env 1 = b # bs"
    by (cases "train_batches env 1") auto
  from main_first_batch_exits[OF _ _ _ _ bs, of a] h obtain out evs where
    run: "main env a = Some (out, (loop_entry env a)
                         \<lparr>trace := trace (loop_entry env a) @ Log (LStartingEpoch 1) # evs,
                          epoch := 1\<rparr>)"
    and ev: "batch_events (available_device env) b evs"
    by auto
  have "filter epoch_start evs = []"
    using ev by (rule batch_events_classes(1))
  then have "epochs_started (trace ((loop_entry env a)
                         \<lparr>trace := trace (loop_entry env a) @ Log (LStartingEpoch 1) # evs,
                          epoch := 1\<rparr>)) = 1"
    by (simp add: epochs_started_def entry_classes)
  with run show "\<exists>out s. main env a = Some (out, s) \<and> epochs_started (trace s) = 1"
    by blast
next
  assume nv: "\<not> valid_setup a"
  then have "\<exists>y. main env a = Some y"
    by (auto simp add: main_unfold valid_setup_def new_loader_ok scaled_batch_size seed_ok
          split: sum.splits)
  then obtain out s where run: "main env a = Some (out, s)" by (cases, auto)
  from run have "epochs_started (trace s) = 0"
  proof (cases rule: run_cases)
    case seed
    then show ?thesis by (simp add: epochs_started_def begin_main_trace)
  next
    case exit
    then show ?thesis by (simp add: epochs_started_def exit_trace)
  next
    case (loader msg)
    then show ?thesis by (simp add: epochs_started_def loader_failed_classes)
  next
    case (loop k evs)
    with nv show ?thesis by simp
  qed
  with run show "\<exists>out s. main env a = Some (out, s) \<and> epochs_started (trace s) = 0"
    by blast
qed

theorem epoch_loop_iterations_witness:
  "(\<exists>out s. main ex_env ex_short_args = Some (out, s) \<and> epochs_started (trace s) \<le> 30) \<and>
   (\<exists>out s. main ex_env ex_short_args = Some (out, s) \<and> epochs_started (trace s) = 1) \<and>
   \<not> valid_setup ex_short_badseed_args \<and>
   (\<exists>out s. main ex_env ex_short_badseed_args = Some (out, s) \<and> epochs_started (trace s) = 0)"
proof -
  have h: "0 \<le> num_epochs ex_short_args"
    "valid_setup ex_short_args \<and> short_test ex_short_args \<and> 0 < train_len ex_env \<and>
     num_epochs ex_short_args \<noteq> 0 \<and> train_batches ex_env 1 \<noteq> []"
    by (simp_all add: ex_args_fields ex_env_fields)
  have nv: "\<not> valid_setup ex_short_badseed_args"
    by (simp add: valid_setup_def ex_args_fields)
  from epoch_loop_iterations[of ex_short_args ex_env] h
    epoch_loop_iterations[of ex_short_badseed_args ex_env] nv
  show ?thesis
    by (simp add: ex_args_fields)
qed

text \<open>
  The claim C3 as stated fails: with \<^verbatim>\<open>num_epochs\<close> 30 the short-test run returns after
  one iteration of the epoch loop, not thirty.
\<close>

theorem one_epoch_in_short_test:
  "main ex_env ex_short_args \<noteq> None \<and>
   fst (the (main ex_env ex_short_args)) = Returned \<and>
   num_epochs ex_short_args = 30 \<and>
   epochs_started (trace (snd (the (main ex_env ex_short_args)))) = 1"
  by (simp add: ex_short_run ex_args_fields epochs_started_def entry_classes)

text \<open>
  Claim C6 fails on the code, by the defect of claim C2. With \<^verbatim>\<open>eval_steps\<close> 1 the
  first batch of two examples would make the evaluation due, but the run ends with
  \<^verbatim>\<open>NameError\<close> at line 149: no evaluation and no checkpoint save take place, and
  \<^verbatim>\<open>steps_till_eval\<close> is never decremented.
\<close>

theorem evaluation_never_reached:
  "\<exists>s. main ex_env ex_eager_args = Some (Raised (NameError ''optimizer''), s) \<and>
       eval_steps ex_eager_args = 1 \<and> length (train_batches ex_env 1) = 1 \<and>
       filter para_event (trace s) \<noteq> [] \<and>
       filter evaluation_event (trace s) = [] \<and> steps_till_eval s = 1"
  by (simp add: ex_eager_run entry_classes loop_entry_counters ex_args_fields ex_env_fields)

text \<open>
  Claim C7, as amended. In every finished run, each forward pass of the Paraphraser is
  called on the question phrase indices, question phrase types and context phrase indices
  of a batch of the training loader, moved to the device, and the run contains no forward
  pass of the span network.
\<close>

theorem paraphraser_consumes_batch:
  assumes "main env a = Some (out, s)"
  shows "filter forward_event (trace s) = [] \<and>
         (\<forall>q t c. ParaForward q t c \<in> set (trace s) \<longrightarrow>
            (\<exists>e. \<exists>b\<in>set (train_batches env e). length b = 10 \<and>
               q = to (available_device env) (b ! 7) \<and>
               t = to (available_device env) (b ! 8) \<and>
               c = to (available_device env) (b ! 6)))"
  using assms
proof (cases rule: run_cases)
  case seed
  then show ?thesis by (simp add: begin_main_trace)
next
  case exit
  then show ?thesis by (simp add: exit_trace)
next
  case (loader msg)
  then show ?thesis by (simp add: loader_failed_classes loader_failed_trace)
next
  case (loop k evs)
  have fw: "filter forward_event evs = []"
    using loop(6) by (auto dest: batch_events_classes(2))
  have "\<exists>e. \<exists>b\<in>set (train_batches env e). length b = 10 \<and>
               q = to (available_device env) (b ! 7) \<and>
               t = to (available_device env) (b ! 8) \<and>
               c = to (available_device env) (b ! 6)"
    if "ParaForward q t c \<in> set evs" for q t c
    using that loop(6) by (fastforce simp add: batch_events_def)
  with fw loop(4) show ?thesis
    by (simp add: entry_classes epoch_logs_classes para_not_in_entry para_not_in_logs)
qed

theorem paraphraser_consumes_batch_witness:
  "\<exists>out s. main ex_env ex_args = Some (out, s) \<and>
      filter forward_event (trace s) = [] \<and>
      ParaForward (to (CUDA 0) ex_qphr) (to (CUDA 0) ex_qtypes) (to (CUDA 0) ex_cphr)
        \<in> set (trace s) \<and>
      (\<exists>e. \<exists>b\<in>set (train_batches ex_env e). length b = 10 \<and>
          to (CUDA 0) ex_qphr = to (available_device ex_env) (b ! 7))"
proof -
  let ?s = "(loop_entry ex_env ex_args)
             \<lparr>trace := trace (loop_entry ex_env ex_args) @
                 [Log (LStartingEpoch 1),
                  ParaForward (to (CUDA 0) ex_qphr) (to (CUDA 0) ex_qtypes) (to (CUDA 0) ex_cphr),
                  Print ''what is'', Print ''''],
              epoch := 1\<rparr>"
  have run: "main ex_env ex_args = Some (Raised (NameError ''optimizer''), ?s)"
    by (rule ex_train_run)
  have mem: "ParaForward (to (CUDA 0) ex_qphr) (to (CUDA 0) ex_qtypes) (to (CUDA 0) ex_cphr)
               \<in> set (trace ?s)"
    by simp
  from paraphraser_consumes_batch[OF run] mem
  have "filter forward_event (trace ?s) = []"
    and "\<exists>e. \<exists>b\<in>set (train_batches ex_env e). length b = 10 \<and>
          to (CUDA 0) ex_qphr = to (available_device ex_env) (b ! 7)"
    by blast+
  with run mem show ?thesis by blast
qed

text \<open>
  The claim C7 as stated fails: the run below, with the BiDAF checkpoint loaded, calls
  the Paraphraser without any forward pass of the BiDAF network.
\<close>

theorem paraphraser_without_bidaf_forward:
  "main ex_env ex_args \<noteq> None \<and>
   filter para_event (trace (snd (the (main ex_env ex_args)))) \<noteq> [] \<and>
   filter forward_event (trace (snd (the (main ex_env ex_args)))) = []"
  by (simp add: ex_train_run entry_classes)

text \<open>
  Claim C8. In a finished run with \<^verbatim>\<open>short_test\<close> false and a \<^verbatim>\<open>load_path\<close>, when the
  seeding of line 42 takes the seed the checkpoint is loaded once and the BiDAF network at
  the end of \<^verbatim>\<open>main\<close> is as it was after line 67: it has the parameters of the
  checkpoint and is in inference mode on the device. When the seeding refuses the seed,
  the run ends at line 42, before the network is built or loaded. In both cases no
  gradient or optimizer step occurs, and \<^verbatim>\<open>evaluate\<close> leaves the parameters of the
  network it is given as they are.
\<close>

theorem bidaf_frozen:
  assumes "main env a = Some (out, s)" "\<not> short_test a" "truthy (load_path a)"
  shows "(0 \<le> seed a \<and> seed a < 2 ^ 32 \<longrightarrow>
            bidaf_model s =
              \<lparr>params = checkpoint env (path_of (load_path a)), training = False,
               placed = available_device env\<rparr> \<and>
            filter load_event (trace s) = [LoadCheckpoint (path_of (load_path a))]) \<and>
         (\<not> (0 \<le> seed a \<and> seed a < 2 ^ 32) \<longrightarrow>
            out = Raised (ValueError ''Seed must be between 0 and 2**32 - 1'') \<and>
            trace s = [Log LArgs, Log (LSeed (seed a))]) \<and>
         filter training_event (trace s) = [] \<and>
         params (fst (snd (evaluate eops m dl d f ml sq w))) = params m"
proof -
  have ev: "params (fst (snd (evaluate eops m dl d f ml sq w))) = params m"
    by (rule evaluate_module(1)[of eops m dl d f ml sq w "fst (evaluate eops m dl d f ml sq w)" _
          "snd (snd (evaluate eops m dl d f ml sq w))"]) simp
  from assms(1) show ?thesis
  proof (cases rule: run_cases)
    case seed
    with ev show ?thesis by (simp add: begin_main_trace)
  next
    case exit
    with assms show ?thesis by simp
  next
    case (loader msg)
    with assms(2) ev show ?thesis
      by (simp add: loader_failed_classes loader_failed_fields after_loading_fields)
  next
    case (loop k evs)
    have "filter load_event evs = []" "filter training_event evs = []"
      using loop(6) by (auto dest: batch_events_classes)
    with loop(1,4) assms(2) ev show ?thesis
      by (simp add: entry_classes epoch_logs_classes loop_entry_fields after_loading_fields
            valid_setup_def)
  qed
qed

theorem bidaf_frozen_witness:
  "\<exists>out s. main ex_env ex_args = Some (out, s) \<and>
      \<not> short_test ex_args \<and> truthy (load_path ex_args) \<and>
      0 \<le> seed ex_args \<and> seed ex_args < 2 ^ 32 \<and>
      bidaf_model s = \<lparr>params = 1, training = False, placed = CUDA 0\<rparr> \<and>
      filter load_event (trace s) = [LoadCheckpoint ''save/train/bidaf-01/best.pth.tar''] \<and>
      filter training_event (trace s) = [] \<and>
      params (fst (snd (evaluate ex_ops ex_module [ex_dev_batch] (CUDA 0)
                          ''data/dev_eval.json'' 15 True ex_world))) = params ex_module"
proof -
  obtain out s where run: "main ex_env ex_args = Some (out, s)"
    using ex_train_run by blast
  have h: "\<not> short_test ex_args" "truthy (load_path ex_args)"
    by (simp_all add: ex_args_def truthy_def)
  have sd: "0 \<le> seed ex_args \<and> seed ex_args < 2 ^ 32"
    by (simp add: ex_args_def)
  from bidaf_frozen[OF run h, of ex_ops ex_module "[ex_dev_batch]" "CUDA 0"
      "''data/dev_eval.json''" 15 True ex_world] sd
  have "bidaf_model s = \<lparr>params = 1, training = False, placed = CUDA 0\<rparr> \<and>
      filter load_event (trace s) = [LoadCheckpoint ''save/train/bidaf-01/best.pth.tar''] \<and>
      filter training_event (trace s) = [] \<and>
      params (fst (snd (evaluate ex_ops ex_module [ex_dev_batch] (CUDA 0)
                          ''data/dev_eval.json'' 15 True ex_world))) = params ex_module"
    by (simp add: ex_env_fields) (simp add: ex_args_def path_of_def ex_env_def)
  with run h sd show ?thesis by blast
qed

text \<open>
  Claim C9, as amended. In a run that gets past line 67, an empty training set makes the
  constructor of the shuffling training loader (line 79) raise \<^verbatim>\<open>ValueError\<close>, before
  \<^verbatim>\<open>Training...\<close> is logged and before any epoch starts. So every run that logs
  \<^verbatim>\<open>Training...\<close> at line 108 and reaches the division of line 110 has a non-empty
  training set; for such a set \<^verbatim>\<open>step // len(train_dataset)\<close> gives 0, and when the
  loader constructors take the number of workers and the batch size the epoch loop is
  entered with epoch number 0.
\<close>

theorem empty_training_set:
  assumes "short_test a \<or> truthy (load_path a)" "0 \<le> seed a" "seed a < 2 ^ 32"
  shows "(train_len env = 0 \<longrightarrow>
            (\<exists>msg s. main env a = Some (Raised (ValueError msg), s) \<and>
                epochs_started (trace s) = 0 \<and> Log LTraining \<notin> set (trace s))) \<and>
         (\<forall>out s. main env a = Some (out, s) \<and> Log LTraining \<in> set (trace s) \<longrightarrow>
            0 < train_len env) \<and>
         (0 < train_len env \<longrightarrow>
            floordiv 0 (int (train_len env)) = Inr 0 \<and>
            (0 \<le> num_workers a \<and> 0 < batch_size a \<longrightarrow>
               main env a = epoch_loop env (loop_entry env a) \<and> epoch (loop_entry env a) = 0))"
proof -
  have seeded: "np_random_seed (seed a) = Inr ()"
    using assms(2,3) by (simp add: seed_ok)
  have p1: "\<exists>msg s. main env a = Some (Raised (ValueError msg), s) \<and>
                epochs_started (trace s) = 0 \<and> Log LTraining \<notin> set (trace s)"
    if "train_len env = 0"
  proof -
    have "\<exists>e. new_loader (train_len env)
                    (batch_size a * max 1 (int (length (available_gpu_ids env)))) True
                    (num_workers a) = Inl e"
      by (simp add: new_loader_def that)
    then obtain e where l: "new_loader (train_len env)
                    (batch_size a * max 1 (int (length (available_gpu_ids env)))) True
                    (num_workers a) = Inl e"
      by blast
    then obtain msg where e: "e = ValueError msg"
      using new_loader_fails by blast
    have "main env a = Some (Raised (ValueError msg), before_train_loader (after_loading env a))"
      using seeded assms(1) l e by (auto simp add: main_unfold)
    moreover have "Log LTraining \<notin> set (trace (before_train_loader (after_loading env a)))"
      by (simp add: loader_failed_trace)
    ultimately show ?thesis
      by (intro exI[of _ msg] exI[of _ "before_train_loader (after_loading env a)"])
         (simp add: epochs_started_def loader_failed_classes)
  qed
  have p2: "0 < train_len env"
    if "main env a = Some (out, s) \<and> Log LTraining \<in> set (trace s)" for out s
  proof -
    from that have run: "main env a = Some (out, s)" and tr: "Log LTraining \<in> set (trace s)"
      by simp_all
    from run show ?thesis
    proof (cases rule: run_cases)
      case seed
      with assms show ?thesis by simp
    next
      case exit
      with assms show ?thesis by simp
    next
      case (loader msg)
      with tr show ?thesis by (auto simp add: loader_failed_trace split: if_splits)
    next
      case (loop k evs)
      then show ?thesis by simp
    qed
  qed
  have p3: "floordiv 0 (int (train_len env)) = Inr 0 \<and>
            (0 \<le> num_workers a \<and> 0 < batch_size a \<longrightarrow>
               main env a = epoch_loop env (loop_entry env a) \<and> epoch (loop_entry env a) = 0)"
    if "0 < train_len env"
    using that assms main_reaches_loop[of a env]
    by (auto simp add: floordiv_def valid_setup_def loop_entry_fields)
  from p1 p2 p3 show ?thesis by blast
qed

theorem empty_training_set_witness:
  "(short_test ex_args \<or> truthy (load_path ex_args)) \<and> 0 \<le> seed ex_args \<and>
   seed ex_args < 2 ^ 32 \<and> train_len ex_empty_env = 0 \<and>
   (\<exists>msg s. main ex_empty_env ex_args = Some (Raised (ValueError msg), s) \<and>
        epochs_started (trace s) = 0 \<and> Log LTraining \<notin> set (trace s)) \<and>
   0 < train_len ex_env \<and>
   floordiv 0 (int (train_len ex_env)) = Inr 0 \<and>
   main ex_env ex_args = epoch_loop ex_env (loop_entry ex_env ex_args) \<and>
   epoch (loop_entry ex_env ex_args) = 0"
proof -
  have g: "short_test ex_args \<or> truthy (load_path ex_args)"
    and sd: "0 \<le> seed ex_args" "seed ex_args < 2 ^ 32"
    and nw: "0 \<le> num_workers ex_args \<and> 0 < batch_size ex_args"
    by (simp_all add: ex_args_def truthy_def)
  have e: "train_len ex_empty_env = 0" and n: "0 < train_len ex_env"
    by (simp_all add: ex_empty_fields ex_env_fields)
  from empty_training_set[OF g sd, of ex_empty_env] e
    empty_training_set[OF g sd, of ex_env] n nw g sd
  show ?thesis by simp
qed

text \<open>
  The claim C9 as stated fails: for an empty training set the run ends with the
  \<^verbatim>\<open>ValueError\<close> of the loader constructor at line 79, not with a division by zero;
  line 110 is not reached.
\<close>

theorem empty_training_set_value_error:
  "train_len ex_empty_env = 0 \<and>
   main ex_empty_env ex_args \<noteq> None \<and>
   fst (the (main ex_empty_env ex_args))
     = Raised (ValueError
                 ''num_samples should be a positive integer value, but got num_samples=0'') \<and>
   fst (the (main ex_empty_env ex_args)) \<noteq> Raised ZeroDivisionError"
proof -
  have "np_random_seed (seed ex_args) = Inr ()"
    by (simp add: seed_ok ex_args_def)
  moreover have "new_loader (train_len ex_empty_env)
                    (batch_size ex_args * max 1 (int (length (available_gpu_ids ex_empty_env))))
                    True (num_workers ex_args)
     = Inl (ValueError ''num_samples should be a positive integer value, but got num_samples=0'')"
    by (simp add: new_loader_def ex_empty_fields) (simp add: ex_args_def)
  ultimately show ?thesis
    by (simp add: main_unfold ex_args_fields ex_empty_fields)
qed




end
